theory Spec2Isabelle
  imports Complex_Main "HOL-Library.AList" "HOL-Library.Word"
begin

section \<open>Python values and builtins used by ScrapCord\<close>

text \<open>
  Gateway payloads are the values \<open>json.loads\<close> returns.  Python's \<open>None\<close> is
  \<open>JNull\<close>.  A dict is an association list read with \<open>map_of\<close> (the first binding of
  a key is the dict's entry).  Numbers with a fraction are outside the model; strings are
  8-bit text.
\<close>

datatype json =
    JNull
  | JBool bool
  | JInt int
  | JStr string
  | JList "json list"
  | JDict "(string \<times> json) list"

text \<open>The exceptions that the modelled code can raise.\<close>

datatype error =
    KeyError
  | TypeError
  | ValueError
  | AttributeError
  | NameError
  | RuntimeError
  | ReconnectDiscordWebsocket

text \<open>Sequencing of statements that may raise: the first exception ends the block.\<close>

definition bindE :: "error + 'a \<Rightarrow> ('a \<Rightarrow> error + 'b) \<Rightarrow> error + 'b" where
  "bindE m f = (case m of Inl e \<Rightarrow> Inl e | Inr x \<Rightarrow> f x)"

text \<open>Truth value of a payload value, as \<open>if x:\<close> tests it.\<close>

fun truthy :: "json \<Rightarrow> bool" where
  "truthy JNull = False"
| "truthy (JBool b) = b"
| "truthy (JInt n) = (n \<noteq> 0)"
| "truthy (JStr s) = (s \<noteq> [])"
| "truthy (JList xs) = (xs \<noteq> [])"
| "truthy (JDict kvs) = (kvs \<noteq> [])"

text \<open>\<open>data[key]\<close> with a string key: only a dict can be subscripted by a string.\<close>

fun getitem :: "json \<Rightarrow> string \<Rightarrow> error + json" where
  "getitem (JDict kvs) k = (case map_of kvs k of None \<Rightarrow> Inl KeyError | Some v \<Rightarrow> Inr v)"
| "getitem _ k = Inl TypeError"

text \<open>\<open>data.get(key, default)\<close>: only a dict has the method.\<close>

fun dict_get :: "json \<Rightarrow> string \<Rightarrow> json \<Rightarrow> error + json" where
  "dict_get (JDict kvs) k d = Inr (case map_of kvs k of None \<Rightarrow> d | Some v \<Rightarrow> v)"
| "dict_get _ k d = Inl AttributeError"

text \<open>\<open>for x in data\<close>: a list yields its items, a dict its keys, a string its characters.\<close>

fun py_iter :: "json \<Rightarrow> error + json list" where
  "py_iter (JList xs) = Inr xs"
| "py_iter (JDict kvs) = Inr (map JStr (remdups (map fst kvs)))"
| "py_iter (JStr s) = Inr (map (\<lambda>c. JStr [c]) s)"
| "py_iter _ = Inl TypeError"

text \<open>
  \<open>int(x)\<close>.  On a string: surrounding whitespace is dropped, then an optional sign and
  decimal digits, where single underscores may separate digits.
\<close>

definition is_space :: "char \<Rightarrow> bool" where
  "is_space c = (let n = (of_char c :: nat) in (9 \<le> n \<and> n \<le> 13) \<or> (28 \<le> n \<and> n \<le> 32))"

definition is_digit :: "char \<Rightarrow> bool" where
  "is_digit c = (let n = (of_char c :: nat) in 48 \<le> n \<and> n \<le> 57)"

definition digit_val :: "char \<Rightarrow> nat" where
  "digit_val c = (of_char c :: nat) - 48"

fun digits :: "string \<Rightarrow> nat \<Rightarrow> nat option" where
  "digits [] acc = Some acc"
| "digits (c # cs) acc =
     (if is_digit c then digits cs (acc * 10 + digit_val c)
      else if c = CHR ''_'' then
        (case cs of [] \<Rightarrow> None
         | d # ds \<Rightarrow> if is_digit d then digits cs acc else None)
      else None)"

definition number :: "string \<Rightarrow> nat option" where
  "number s = (case s of [] \<Rightarrow> None | c # cs \<Rightarrow> if is_digit c then digits s 0 else None)"

definition strip :: "string \<Rightarrow> string" where
  "strip s = rev (dropWhile is_space (rev (dropWhile is_space s)))"

definition int_of_str :: "string \<Rightarrow> int option" where
  "int_of_str s =
     (case strip s of
        [] \<Rightarrow> None
      | c # cs \<Rightarrow>
          if c = CHR ''-'' then map_option (\<lambda>n. - int n) (number cs)
          else if c = CHR ''+'' then map_option int (number cs)
          else map_option int (number (c # cs)))"

fun py_int :: "json \<Rightarrow> error + int" where
  "py_int (JInt n) = Inr n"
| "py_int (JBool b) = Inr (if b then 1 else 0)"
| "py_int (JStr s) = (case int_of_str s of None \<Rightarrow> Inl ValueError | Some n \<Rightarrow> Inr n)"
| "py_int _ = Inl TypeError"

text \<open>\<open>x == k\<close> for an integer constant \<open>k\<close> (\<open>True == 1\<close> and \<open>False == 0\<close> hold).\<close>

fun eq_int :: "json \<Rightarrow> int \<Rightarrow> bool" where
  "eq_int (JInt n) k = (n = k)"
| "eq_int (JBool b) k = ((if b then 1 else 0) = k)"
| "eq_int _ k = False"

text \<open>\<open>str.lower()\<close> on ASCII text.\<close>

definition lower_char :: "char \<Rightarrow> char" where
  "lower_char c =
     (let n = (of_char c :: nat) in if 65 \<le> n \<and> n \<le> 90 then char_of (n + 32) else c)"

definition lower :: "string \<Rightarrow> string" where
  "lower s = map lower_char s"

subsection \<open>utils.py\<close>

text \<open>
  \<open>_get_snowflake\<close>: \<open>int(data[key])\<close>, with \<open>KeyError\<close>, \<open>TypeError\<close> and
  \<open>ValueError\<close> caught and turned into \<open>None\<close>.
\<close>

definition get_snowflake :: "json \<Rightarrow> string \<Rightarrow> int option" where
  "get_snowflake data key =
     (case bindE (getitem data key) py_int of
        Inr n \<Rightarrow> Some n
      | Inl e \<Rightarrow> None)"

section \<open>Cached entities\<close>

text \<open>
  Each class is a record of the attributes its \<open>_from_data\<close> assigns, in the order it
  assigns them.  The back references \<open>_state\<close> and \<open>_guild\<close> are not fields: the owner
  is the place where the value is stored.
\<close>

subsection \<open>user.py\<close>

record user =
  username :: json
  user_id :: int
  discriminator :: json
  bot :: json
  system :: json
  user_avatar :: json
  user_banner :: json
  user_accent_colour :: json
  user_public_flags :: json

text \<open>\<open>BaseUser._from_data\<close>, which \<open>User(data, state)\<close> runs.\<close>

definition User :: "json \<Rightarrow> error + user" where
  "User data =
     bindE (getitem data ''username'') (\<lambda>v_username.
     bindE (getitem data ''id'') (\<lambda>v_id.
     bindE (py_int v_id) (\<lambda>n_id.
     bindE (getitem data ''discriminator'') (\<lambda>v_discriminator.
     bindE (dict_get data ''bot'' (JBool False)) (\<lambda>v_bot.
     bindE (dict_get data ''system'' (JBool False)) (\<lambda>v_system.
     bindE (dict_get data ''avatar'' JNull) (\<lambda>v_avatar.
     bindE (dict_get data ''banner'' JNull) (\<lambda>v_banner.
     bindE (dict_get data ''accent_color'' JNull) (\<lambda>v_accent.
     bindE (dict_get data ''public_flags'' (JInt 0)) (\<lambda>v_flags.
     Inr \<lparr> username = v_username, user_id = n_id, discriminator = v_discriminator,
           bot = v_bot, system = v_system, user_avatar = v_avatar, user_banner = v_banner,
           user_accent_colour = v_accent, user_public_flags = v_flags \<rparr>))))))))))"

record client_user = user +
  verified :: json
  user_locale :: json
  mfa_enabled :: json

text \<open>\<open>ClientUser._from_data\<close>: the common attributes, then three more.\<close>

definition ClientUser :: "json \<Rightarrow> error + client_user" where
  "ClientUser data =
     bindE (User data) (\<lambda>u.
     bindE (dict_get data ''verified'' (JBool False)) (\<lambda>v_verified.
     bindE (dict_get data ''locale'' JNull) (\<lambda>v_locale.
     bindE (dict_get data ''mfa_enabled'' (JBool False)) (\<lambda>v_mfa.
     Inr (user.extend u
            \<lparr> verified = v_verified, user_locale = v_locale, mfa_enabled = v_mfa \<rparr>)))))"

subsection \<open>member.py\<close>

record member =
  member_user :: user
  nick :: json
  deaf :: json
  mute :: json
  pending :: json
  member_joined_at :: json
  member_roles :: json
  member_premium_since :: json
  member_avatar :: json
  member_permissions :: json

text \<open>\<open>Member._from_data\<close>, which \<open>Member(data, guild, state)\<close> runs.\<close>

definition Member :: "json \<Rightarrow> error + member" where
  "Member data =
     bindE (getitem data ''user'') (\<lambda>v_user.
     bindE (User v_user) (\<lambda>u.
     bindE (dict_get data ''nick'' JNull) (\<lambda>v_nick.
     bindE (dict_get data ''deaf'' (JBool False)) (\<lambda>v_deaf.
     bindE (dict_get data ''mute'' (JBool False)) (\<lambda>v_mute.
     bindE (dict_get data ''pending'' (JBool False)) (\<lambda>v_pending.
     bindE (dict_get data ''joined_at'' JNull) (\<lambda>v_joined.
     bindE (dict_get data ''roles'' (JList [])) (\<lambda>v_roles.
     bindE (dict_get data ''premium_since'' JNull) (\<lambda>v_premium.
     bindE (dict_get data ''avatar'' JNull) (\<lambda>v_avatar.
     bindE (dict_get data ''permissions'' JNull) (\<lambda>v_perms.
     Inr \<lparr> member_user = u, nick = v_nick, deaf = v_deaf, mute = v_mute,
           pending = v_pending, member_joined_at = v_joined, member_roles = v_roles,
           member_premium_since = v_premium, member_avatar = v_avatar,
           member_permissions = v_perms \<rparr>)))))))))))"

subsection \<open>role.py and color.py\<close>

record colour =
  colour_value :: json

text \<open>\<open>_premium_subscriber\<close> is \<open>None\<close> here when the source stores \<open>MISSING\<close>.\<close>

record role_tags =
  bot_id :: "int option"
  integration_id :: "int option"
  tags_premium_subscriber :: "json option"

definition RoleTags :: "json \<Rightarrow> error + role_tags" where
  "RoleTags data =
     (let b = get_snowflake data ''bot_id'';
          i = get_snowflake data ''integration_id''
      in case data of
           JDict kvs \<Rightarrow>
             Inr \<lparr> bot_id = b, integration_id = i,
                   tags_premium_subscriber = map_of kvs ''premium_subscriber'' \<rparr>
         | _ \<Rightarrow> Inl AttributeError)"

record role =
  role_id :: int
  role_name :: json
  hoist :: json
  position :: int
  managed :: json
  mentionable :: json
  unicode_emoji :: json
  color :: colour
  tags :: role_tags
  role_icon :: json

text \<open>\<open>Role._from_data\<close>, which \<open>Role(data, guild)\<close> runs.\<close>

definition Role :: "json \<Rightarrow> error + role" where
  "Role data =
     bindE (getitem data ''id'') (\<lambda>v_id.
     bindE (py_int v_id) (\<lambda>n_id.
     bindE (getitem data ''name'') (\<lambda>v_name.
     bindE (dict_get data ''hoist'' (JBool False)) (\<lambda>v_hoist.
     bindE (getitem data ''position'') (\<lambda>v_position.
     bindE (py_int v_position) (\<lambda>n_position.
     bindE (dict_get data ''managed'' (JBool False)) (\<lambda>v_managed.
     bindE (dict_get data ''mentionable'' (JBool False)) (\<lambda>v_mentionable.
     bindE (dict_get data ''unicode_emoji'' JNull) (\<lambda>v_emoji.
     bindE (dict_get data ''color'' (JInt 0)) (\<lambda>v_color.
     bindE (dict_get data ''tags'' (JDict [])) (\<lambda>v_tags.
     bindE (RoleTags v_tags) (\<lambda>t.
     bindE (dict_get data ''icon'' JNull) (\<lambda>v_icon.
     Inr \<lparr> role_id = n_id, role_name = v_name, hoist = v_hoist, position = n_position,
           managed = v_managed, mentionable = v_mentionable, unicode_emoji = v_emoji,
           color = \<lparr> colour_value = v_color \<rparr>, tags = t, role_icon = v_icon \<rparr>)))))))))))))"

subsection \<open>guild.py\<close>

text \<open>
  \<open>_members\<close> and \<open>_roles\<close> are dicts whose order of insertion is observable (the
  \<open>members\<close> and \<open>roles\<close> properties list the values): association lists with one
  binding for each key, a new key appended at the end (\<open>AList.update\<close>), a popped key
  deleted (\<open>AList.delete\<close>).
\<close>

record guild =
  guild_id :: int
  guild_name :: json
  afk_timeout :: json
  widget_enabled :: json
  verification_level :: json
  default_message_notifications :: json
  explicit_content_filter :: json
  features :: json
  mfa_level :: json
  application_id :: json
  large :: json
  unavailable :: json
  member_count :: json
  vanity_url_code :: json
  description :: json
  premium_tier :: json
  premium_subscription_count :: json
  preferred_locale :: json
  approximate_member_count :: json
  approximate_presence_count :: json
  nsfw_level :: json
  guild_system_channel_id :: "int option"
  guild_rules_channel_id :: "int option"
  guild_public_updates_channel_id :: "int option"
  guild_afk_channel_id :: "int option"
  guild_joined_at :: json
  guild_owner_id :: "int option"
  guild_presences :: json
  guild_system_channel_flags :: json
  guild_icon :: json
  guild_threads :: json
  guild_emojis :: json
  guild_voice_states :: json
  guild_channels :: json
  guild_members :: "(int \<times> member) list"
  guild_roles :: "(int \<times> role) list"

text \<open>
  The first part of \<open>Guild._from_data\<close>: every attribute up to the two empty dicts.
  The four channel ids and the owner id go through \<open>_get_snowflake\<close>, which never raises.
\<close>

definition guild_attributes :: "json \<Rightarrow> error + guild" where
  "guild_attributes data =
     bindE (getitem data ''id'') (\<lambda>v_id.
     bindE (py_int v_id) (\<lambda>n_id.
     bindE (getitem data ''name'') (\<lambda>v_name.
     bindE (dict_get data ''afk_timeout'' (JInt 0)) (\<lambda>v_afk_timeout.
     bindE (dict_get data ''widget_enabled'' (JBool False)) (\<lambda>v_widget_enabled.
     bindE (dict_get data ''verification_level'' (JInt 0)) (\<lambda>v_verification_level.
     bindE (dict_get data ''default_message_notifications'' (JInt 0)) (\<lambda>v_default_message_notifications.
     bindE (dict_get data ''explicit_content_filter'' (JInt 0)) (\<lambda>v_explicit_content_filter.
     bindE (dict_get data ''features'' (JList [])) (\<lambda>v_features.
     bindE (dict_get data ''mfa_level'' (JInt 0)) (\<lambda>v_mfa_level.
     bindE (dict_get data ''application_id'' (JNull)) (\<lambda>v_application_id.
     bindE (dict_get data ''large'' (JBool False)) (\<lambda>v_large.
     bindE (dict_get data ''unavailable'' (JBool False)) (\<lambda>v_unavailable.
     bindE (dict_get data ''member_count'' (JNull)) (\<lambda>v_member_count.
     bindE (dict_get data ''vanity_url_code'' (JNull)) (\<lambda>v_vanity_url_code.
     bindE (dict_get data ''description'' (JNull)) (\<lambda>v_description.
     bindE (dict_get data ''premium_tier'' (JInt 0)) (\<lambda>v_premium_tier.
     bindE (dict_get data ''premium_subscription_count'' (JInt 0)) (\<lambda>v_premium_subscription_count.
     bindE (dict_get data ''preferred_locale'' (JStr ''en-US'')) (\<lambda>v_preferred_locale.
     bindE (dict_get data ''approximate_member_count'' (JNull)) (\<lambda>v_approximate_member_count.
     bindE (dict_get data ''approximate_presence_count'' (JNull)) (\<lambda>v_approximate_presence_count.
     bindE (dict_get data ''nsfw_level'' (JInt 0)) (\<lambda>v_nsfw_level.
     bindE (dict_get data ''joined_at'' (JNull)) (\<lambda>v_joined_at.
     bindE (dict_get data ''presences'' (JList [])) (\<lambda>v_presences.
     bindE (dict_get data ''system_channel_flags'' (JInt 0)) (\<lambda>v_system_channel_flags.
     bindE (dict_get data ''icon'' (JNull)) (\<lambda>v_icon.
     bindE (dict_get data ''threads'' (JList [])) (\<lambda>v_threads.
     bindE (dict_get data ''emojis'' (JList [])) (\<lambda>v_emojis.
     bindE (dict_get data ''voice_states'' (JList [])) (\<lambda>v_voice_states.
     bindE (dict_get data ''channels'' (JList [])) (\<lambda>v_channels.
     Inr \<lparr> guild_id = n_id, guild_name = v_name, afk_timeout = v_afk_timeout,
           widget_enabled = v_widget_enabled, verification_level = v_verification_level,
           default_message_notifications = v_default_message_notifications,
           explicit_content_filter = v_explicit_content_filter, features = v_features,
           mfa_level = v_mfa_level, application_id = v_application_id, large = v_large,
           unavailable = v_unavailable, member_count = v_member_count,
           vanity_url_code = v_vanity_url_code, description = v_description,
           premium_tier = v_premium_tier,
           premium_subscription_count = v_premium_subscription_count,
           preferred_locale = v_preferred_locale,
           approximate_member_count = v_approximate_member_count,
           approximate_presence_count = v_approximate_presence_count,
           nsfw_level = v_nsfw_level,
           guild_system_channel_id = get_snowflake data ''system_channel_id'',
           guild_rules_channel_id = get_snowflake data ''rules_channel_id'',
           guild_public_updates_channel_id = get_snowflake data ''public_updates_channel_id'',
           guild_afk_channel_id = get_snowflake data ''afk_channel_id'',
           guild_joined_at = v_joined_at, guild_owner_id = get_snowflake data ''owner_id'',
           guild_presences = v_presences,
           guild_system_channel_flags = v_system_channel_flags, guild_icon = v_icon,
           guild_threads = v_threads, guild_emojis = v_emojis,
           guild_voice_states = v_voice_states, guild_channels = v_channels,
           guild_members = [], guild_roles = [] \<rparr>))))))))))))))))))))))))))))))"

text \<open>\<open>State.add_user\<close>, on the \<open>users\<close> dict of the state.\<close>

definition add_user :: "json \<Rightarrow> (int \<times> user) list \<Rightarrow> error + (user \<times> (int \<times> user) list)" where
  "add_user data users =
     bindE (User data) (\<lambda>u.
     bindE (getitem data ''id'') (\<lambda>v_id.
     bindE (py_int v_id) (\<lambda>k.
     Inr (u, AList.update k u users))))"

definition get_member :: "guild \<Rightarrow> int \<Rightarrow> member option" where
  "get_member g i = map_of (guild_members g) i"

text \<open>\<open>_remove_member\<close>: \<open>self._members.pop(id, None)\<close>.\<close>

definition remove_member :: "int \<Rightarrow> guild \<Rightarrow> member option \<times> guild" where
  "remove_member i g =
     (map_of (guild_members g) i, g\<lparr>guild_members := AList.delete i (guild_members g)\<rparr>)"

text \<open>
  \<open>_add_member\<close>: builds the member, stores it under the id of its user, and adds the
  user to the state's \<open>users\<close> when that id is not a key there.
\<close>

definition add_member ::
  "json \<Rightarrow> guild \<Rightarrow> (int \<times> user) list \<Rightarrow> error + (member \<times> guild \<times> (int \<times> user) list)" where
  "add_member data g users =
     bindE (Member data) (\<lambda>m.
       let g' = g\<lparr>guild_members := AList.update (user_id (member_user m)) m (guild_members g)\<rparr>
       in if map_of users (user_id (member_user m)) = None
          then bindE (getitem data ''user'') (\<lambda>v_user.
               bindE (add_user v_user users) (\<lambda>(u, users').
               Inr (m, g', users')))
          else Inr (m, g', users))"

fun update_members ::
  "json list \<Rightarrow> guild \<Rightarrow> (int \<times> user) list \<Rightarrow> error + (guild \<times> (int \<times> user) list)" where
  "update_members [] g users = Inr (g, users)"
| "update_members (m # ms) g users =
     bindE (add_member m g users) (\<lambda>(x, g', users'). update_members ms g' users')"

definition get_role :: "guild \<Rightarrow> int \<Rightarrow> role option" where
  "get_role g i = map_of (guild_roles g) i"

definition add_role :: "json \<Rightarrow> guild \<Rightarrow> error + (role \<times> guild)" where
  "add_role data g =
     bindE (Role data) (\<lambda>r.
     Inr (r, g\<lparr>guild_roles := AList.update (role_id r) r (guild_roles g)\<rparr>))"

text \<open>\<open>_remove_role\<close>: \<open>self._roles.pop(id, None)\<close>; the id may be \<open>None\<close>.\<close>

definition remove_role :: "int option \<Rightarrow> guild \<Rightarrow> role option \<times> guild" where
  "remove_role i g =
     (case i of
        None \<Rightarrow> (None, g)
      | Some k \<Rightarrow> (map_of (guild_roles g) k, g\<lparr>guild_roles := AList.delete k (guild_roles g)\<rparr>))"

fun update_roles :: "json list \<Rightarrow> guild \<Rightarrow> error + guild" where
  "update_roles [] g = Inr g"
| "update_roles (r # rs) g = bindE (add_role r g) (\<lambda>(x, g'). update_roles rs g')"

text \<open>
  \<open>Guild._from_data\<close>.  It assigns every attribute, so the guild it leaves does not
  depend on the attributes the object had: \<open>Guild(data, state)\<close> runs it on a new object
  and \<open>handle_guild_update\<close> on the cached one.  Adding members changes the state's
  \<open>users\<close>, which is passed through.
\<close>

definition Guild :: "json \<Rightarrow> (int \<times> user) list \<Rightarrow> error + (guild \<times> (int \<times> user) list)" where
  "Guild data users =
     bindE (guild_attributes data) (\<lambda>g0.
     bindE (dict_get data ''members'' (JList [])) (\<lambda>v_members.
     bindE (py_iter v_members) (\<lambda>ms.
     bindE (update_members ms g0 users) (\<lambda>(g1, users').
     bindE (dict_get data ''roles'' (JList [])) (\<lambda>v_roles.
     bindE (py_iter v_roles) (\<lambda>rs.
     bindE (update_roles rs g1) (\<lambda>g2.
     Inr (g2, users'))))))))"

text \<open>The \<open>members\<close> property.\<close>

definition members :: "guild \<Rightarrow> member list" where
  "members g = map snd (guild_members g)"

text \<open>
  \<open>DiscordModel.__eq__\<close> is \<open>isinstance(other, self) and self.id == other.id\<close>.  Its
  \<open>self\<close> is an instance, not a class, so \<open>isinstance\<close> raises \<open>TypeError\<close> whatever
  the operands are.
\<close>

definition DiscordModel_eq :: "'a \<Rightarrow> 'b \<Rightarrow> error + bool" where
  "DiscordModel_eq self other = Inl TypeError"

text \<open>
  \<open>list.remove(value)\<close> on the values of \<open>_roles\<close>.  An item is written with the key
  it is stored under, which identifies the object.  \<open>remove\<close> goes through the items in
  order: an item that is the very object \<open>value\<close> is removed without a call of
  \<open>__eq__\<close>; any other item is compared by \<open>__eq__\<close>; an exhausted list raises
  \<open>ValueError\<close>.
\<close>

fun list_remove ::
  "(int \<times> role) list \<Rightarrow> (int \<times> role) option \<Rightarrow> error + (int \<times> role) list" where
  "list_remove [] v = Inl ValueError"
| "list_remove (x # xs) v =
     (if (case v of None \<Rightarrow> False | Some y \<Rightarrow> fst x = fst y) then Inr xs
      else bindE (DiscordModel_eq x v) (\<lambda>b.
           if b then Inr xs
           else bindE (list_remove xs v) (\<lambda>ys. Inr (x # ys))))"

text \<open>The \<open>default_role\<close> property: \<open>self.get_role(self.id)\<close>, the object or \<open>None\<close>.\<close>

definition default_role :: "guild \<Rightarrow> (int \<times> role) option" where
  "default_role g = map_option (\<lambda>r. (guild_id g, r)) (get_role g (guild_id g))"

text \<open>The \<open>roles\<close> property.  The appended item is \<open>default_role\<close> as it was read.\<close>

definition roles :: "guild \<Rightarrow> error + role option list" where
  "roles g =
     (let d = default_role g;
          rs = guild_roles g
      in bindE (list_remove rs d) (\<lambda>rs'.
         Inr (map (\<lambda>x. Some (snd x)) rs' @ [map_option snd d])))"

section \<open>state.py\<close>

record HTTPClient =
  token :: "string option"

record State =
  http :: HTTPClient
  state_user :: "client_user option"
  users :: "(int \<times> user) list"
  guilds :: "(int \<times> guild) list"

text \<open>
  What a handler passes to \<open>self.dispatch\<close>: the event name with its arguments, each
  argument with the value it has at the call.
\<close>

datatype event =
    Ready
  | User_update user user
  | Guild_available guild
  | Guild_join guild
  | Guild_update guild guild
  | Guild_leave "guild option"
  | Member_join member
  | Member_remove user
  | Member_update "member option" member
  | Role_create role
  | Role_delete role
  | Role_update role role

definition clear :: "State \<Rightarrow> State" where
  "clear st = st\<lparr>users := [], guilds := []\<rparr>"

text \<open>\<open>State.__init__\<close>.\<close>

definition State_init :: "State" where
  "State_init = clear \<lparr> http = \<lparr> token = None \<rparr>, state_user = None, users = [], guilds = [] \<rparr>"

definition get_user :: "State \<Rightarrow> int \<Rightarrow> user option" where
  "get_user st i = map_of (users st) i"

definition remove_user :: "int \<Rightarrow> State \<Rightarrow> user option \<times> State" where
  "remove_user i st = (map_of (users st) i, st\<lparr>users := AList.delete i (users st)\<rparr>)"

text \<open>\<open>get_guild\<close>; callers pass the result of \<open>_get_snowflake\<close>, which may be \<open>None\<close>.\<close>

definition get_guild :: "State \<Rightarrow> int option \<Rightarrow> guild option" where
  "get_guild st i = (case i of None \<Rightarrow> None | Some k \<Rightarrow> map_of (guilds st) k)"

text \<open>
  A handler that has got a guild from \<open>get_guild\<close> changes that object in place.  In the
  model the changed guild is written back under the key it was found at.
\<close>

definition set_guild :: "State \<Rightarrow> int option \<Rightarrow> guild \<Rightarrow> State" where
  "set_guild st i g =
     (case i of None \<Rightarrow> st | Some k \<Rightarrow> st\<lparr>guilds := AList.update k g (guilds st)\<rparr>)"

definition add_guild :: "json \<Rightarrow> State \<Rightarrow> error + (guild \<times> State)" where
  "add_guild data st =
     bindE (Guild data (users st)) (\<lambda>(g, users').
     bindE (getitem data ''id'') (\<lambda>v_id.
     bindE (py_int v_id) (\<lambda>k.
     Inr (g, st\<lparr>users := users', guilds := AList.update k g (guilds st)\<rparr>))))"

definition remove_guild :: "int \<Rightarrow> State \<Rightarrow> guild option \<times> State" where
  "remove_guild i st = (map_of (guilds st) i, st\<lparr>guilds := AList.delete i (guilds st)\<rparr>)"

subsection \<open>Event handlers\<close>

text \<open>
  A handler returns the state it leaves and the calls of \<open>dispatch\<close> it made, or the
  exception it raised.  An exception leaves the read loop (nothing catches it there), so
  no later event is handled after it.
\<close>

type_synonym handled = "error + (State \<times> event list)"

definition handle_ready :: "json \<Rightarrow> State \<Rightarrow> handled" where
  "handle_ready data st =
     bindE (getitem data ''user'') (\<lambda>v_user.
     bindE (ClientUser v_user) (\<lambda>cu.
     bindE (getitem data ''user'') (\<lambda>v_user'.
     bindE (add_user v_user' (users st)) (\<lambda>(u, users').
     Inr (st\<lparr>state_user := Some cu, users := users'\<rparr>, [Ready])))))"

definition handle_user_update :: "json \<Rightarrow> State \<Rightarrow> handled" where
  "handle_user_update data st =
     bindE (getitem data ''id'') (\<lambda>v_id.
     bindE (py_int v_id) (\<lambda>k.
     case get_user st k of
       None \<Rightarrow> Inr (st, [])
     | Some user \<Rightarrow>
         bindE (User data) (\<lambda>user'.
         Inr (st\<lparr>users := AList.update k user' (users st)\<rparr>, [User_update user user']))))"

definition handle_guild_create :: "json \<Rightarrow> State \<Rightarrow> handled" where
  "handle_guild_create data st =
     bindE (dict_get data ''unavailable'' JNull) (\<lambda>v_unavailable.
     if truthy v_unavailable then Inr (st, [])
     else bindE (add_guild data st) (\<lambda>(guild, st').
          Inr (st', (if v_unavailable = JBool False then [Guild_available guild] else [])
                    @ [Guild_join guild])))"

definition handle_guild_update :: "json \<Rightarrow> State \<Rightarrow> handled" where
  "handle_guild_update data st =
     bindE (getitem data ''id'') (\<lambda>v_id.
     bindE (py_int v_id) (\<lambda>k.
     case get_guild st (Some k) of
       None \<Rightarrow> Inr (st, [])
     | Some guild \<Rightarrow>
         bindE (Guild data (users st)) (\<lambda>(guild', users').
         Inr (set_guild (st\<lparr>users := users'\<rparr>) (Some k) guild',
              [Guild_update guild guild']))))"

definition handle_guild_delete :: "json \<Rightarrow> State \<Rightarrow> handled" where
  "handle_guild_delete data st =
     bindE (dict_get data ''unavailable'' JNull) (\<lambda>v_unavailable.
     bindE (getitem data ''id'') (\<lambda>v_id.
     bindE (py_int v_id) (\<lambda>k.
     case remove_guild k st of (guild, st') \<Rightarrow>
       Inr (st', if \<not> truthy v_unavailable then [Guild_leave guild] else []))))"

definition handle_guild_member_add :: "json \<Rightarrow> State \<Rightarrow> handled" where
  "handle_guild_member_add data st =
     (let guild_id = get_snowflake data ''guild_id'' in
      case get_guild st guild_id of
        None \<Rightarrow> Inr (st, [])
      | Some guild \<Rightarrow>
          bindE (add_member data guild (users st)) (\<lambda>(member, guild', users').
          Inr (set_guild (st\<lparr>users := users'\<rparr>) guild_id guild', [Member_join member])))"

definition handle_guild_member_remove :: "json \<Rightarrow> State \<Rightarrow> handled" where
  "handle_guild_member_remove data st =
     (let guild_id = get_snowflake data ''guild_id'' in
      case get_guild st guild_id of
        None \<Rightarrow> Inr (st, [])
      | Some guild \<Rightarrow>
          bindE (User data) (\<lambda>user.
          case remove_member (user_id user) guild of (popped, guild') \<Rightarrow>
            Inr (set_guild st guild_id guild', [Member_remove user])))"

definition handle_guild_member_update :: "json \<Rightarrow> State \<Rightarrow> handled" where
  "handle_guild_member_update data st =
     (let guild_id = get_snowflake data ''guild_id'' in
      case get_guild st guild_id of
        None \<Rightarrow> Inr (st, [])
      | Some guild \<Rightarrow>
          bindE (getitem data ''user'') (\<lambda>v_user.
          bindE (getitem v_user ''id'') (\<lambda>v_id.
          bindE (py_int v_id) (\<lambda>k.
          let before = get_member guild k in
          bindE (add_member data guild (users st)) (\<lambda>(after, guild', users').
          Inr (set_guild (st\<lparr>users := users'\<rparr>) guild_id guild',
               [Member_update before after]))))))"

definition handle_guild_role_create :: "json \<Rightarrow> State \<Rightarrow> handled" where
  "handle_guild_role_create data st =
     (let guild_id = get_snowflake data ''guild_id'' in
      case get_guild st guild_id of
        None \<Rightarrow> Inr (st, [])
      | Some guild \<Rightarrow>
          bindE (getitem data ''role'') (\<lambda>v_role.
          bindE (add_role v_role guild) (\<lambda>(role, guild').
          Inr (set_guild st guild_id guild', [Role_create role]))))"

definition handle_guild_role_delete :: "json \<Rightarrow> State \<Rightarrow> handled" where
  "handle_guild_role_delete data st =
     (let guild_id = get_snowflake data ''guild_id'' in
      case get_guild st guild_id of
        None \<Rightarrow> Inr (st, [])
      | Some guild \<Rightarrow>
          (let role_id = get_snowflake data ''role_id'' in
           case remove_role role_id guild of (role, guild') \<Rightarrow>
             (case role of
                None \<Rightarrow> Inr (set_guild st guild_id guild', [])
              | Some r \<Rightarrow> Inr (set_guild st guild_id guild', [Role_delete r]))))"

text \<open>
  \<open>handle_guild_role_update\<close>.  When \<open>get_role\<close> finds nothing, the source calls
  \<open>guild._add_role(role)\<close> with the \<open>role\<close> it has just found to be \<open>None\<close>, not
  with \<open>data['role']\<close>.  The role that \<open>_from_data\<close> then changes in place is written
  back under the key it is stored at.
\<close>

definition handle_guild_role_update :: "json \<Rightarrow> State \<Rightarrow> handled" where
  "handle_guild_role_update data st =
     (let guild_id = get_snowflake data ''guild_id'' in
      case get_guild st guild_id of
        None \<Rightarrow> Inr (st, [])
      | Some guild \<Rightarrow>
          bindE (getitem data ''role'') (\<lambda>v_role.
          bindE (getitem v_role ''id'') (\<lambda>v_id.
          bindE (py_int v_id) (\<lambda>k.
          bindE (case get_role guild k of
                   None \<Rightarrow> bindE (add_role JNull guild) (\<lambda>(r, g). Inr (role_id r, r, g))
                 | Some r \<Rightarrow> Inr (k, r, guild)) (\<lambda>(key, role, guild').
          let before = role in
          bindE (getitem data ''role'') (\<lambda>v_role'.
          bindE (Role v_role') (\<lambda>role'.
          Inr (set_guild st guild_id
                 (guild'\<lparr>guild_roles := AList.update key role' (guild_roles guild')\<rparr>),
               [Role_update before role']))))))))"

text \<open>
  \<open>process_event\<close>: the handler is the attribute named \<open>handle_\<close> followed by the
  lower-cased event name; a name with no such attribute is ignored.
\<close>

definition process_event :: "json \<Rightarrow> json \<Rightarrow> State \<Rightarrow> handled" where
  "process_event name data st =
     (case name of
        JStr s \<Rightarrow>
          (let h = ''handle_'' @ lower s in
           if h = ''handle_ready'' then handle_ready data st
           else if h = ''handle_user_update'' then handle_user_update data st
           else if h = ''handle_guild_create'' then handle_guild_create data st
           else if h = ''handle_guild_update'' then handle_guild_update data st
           else if h = ''handle_guild_delete'' then handle_guild_delete data st
           else if h = ''handle_guild_member_add'' then handle_guild_member_add data st
           else if h = ''handle_guild_member_remove'' then handle_guild_member_remove data st
           else if h = ''handle_guild_member_update'' then handle_guild_member_update data st
           else if h = ''handle_guild_role_create'' then handle_guild_role_create data st
           else if h = ''handle_guild_role_delete'' then handle_guild_role_delete data st
           else if h = ''handle_guild_role_update'' then handle_guild_role_update data st
           else Inr (st, []))
      | _ \<Rightarrow> Inl AttributeError)"

section \<open>http.py\<close>

text \<open>
  \<open>HTTPClient._get_headers\<close> builds a dict whose second value is
  \<open>'AIOCord (...)'.format(aiocord.__version__)\<close>.  The module imports \<open>scrapcord\<close>
  and \<open>aiohttp\<close> only: the name \<open>aiocord\<close> is not defined, and evaluating it raises
  \<open>NameError\<close>.
\<close>

definition get_headers :: "HTTPClient \<Rightarrow> error + (string \<times> string) list" where
  "get_headers h = Inl NameError"

text \<open>
  \<open>HTTPClient.request\<close>: the headers are built before the request is made.  The
  parameter \<open>exchange\<close> stands for what the request and the status checks after it would
  give.
\<close>

definition request :: "HTTPClient \<Rightarrow> error + json \<Rightarrow> error + json" where
  "request h exchange = bindE (get_headers h) (\<lambda>headers. exchange)"

definition get_gateway :: "HTTPClient \<Rightarrow> error + json \<Rightarrow> error + json" where
  "get_gateway h exchange = request h exchange"

section \<open>gateway.py\<close>

record socket =
  closed :: bool

text \<open>
  \<open>HTTPClient.ws_connect\<close>: \<open>gateway and gateway['url'] or 'wss://gateway.discord.gg/'\<close>
  is the url, a suffix is appended to it (\<open>TypeError\<close> unless it is a string), and the
  session opens the socket.
\<close>

definition ws_connect :: "json \<Rightarrow> error + socket" where
  "ws_connect gateway =
     bindE (if truthy gateway then getitem gateway ''url'' else Inr gateway) (\<lambda>v.
     let url = (if truthy v then v else JStr ''wss://gateway.discord.gg/'') in
     case url of
       JStr u \<Rightarrow> Inr \<lparr> closed = False \<rparr>
     | _ \<Rightarrow> Inl TypeError)"

text \<open>
  \<open>HeartbeatHandler\<close> is a \<open>threading.Thread\<close>: \<open>started\<close> is the thread's own
  flag, and \<open>start()\<close> on a started thread raises \<open>RuntimeError\<close>.  The interval is
  the quotient \<open>data['heartbeat_interval'] / 1000.0\<close>, here the exact rational where
  Python rounds to a double.
\<close>

record HeartbeatHandler =
  interval :: "rat option"
  started :: bool

record DiscordWebsocket =
  socket :: "socket option"
  session_id :: json
  sequence :: json
  heartbeat :: HeartbeatHandler
  buffer :: "8 word list"

text \<open>\<open>DiscordWebsocket.__init__\<close>; the \<open>inflator\<close> object has no model.\<close>

definition DiscordWebsocket_init :: "DiscordWebsocket" where
  "DiscordWebsocket_init =
     \<lparr> socket = None, session_id = JNull, sequence = JNull,
       heartbeat = \<lparr> interval = None, started = False \<rparr>, buffer = [] \<rparr>"

text \<open>\<open>is_closed\<close>: \<open>self.socket and self.socket.closed\<close>, as a condition.\<close>

definition is_closed :: "DiscordWebsocket \<Rightarrow> bool" where
  "is_closed w = (case socket w of None \<Rightarrow> False | Some s \<Rightarrow> closed s)"

text \<open>
  What \<open>self.socket.receive()\<close> gives: a binary message with its bytes, or a text message,
  written as the value \<open>json.loads\<close> returns for its text.
\<close>

datatype ws_message =
    Bytes "8 word list"
  | Text json

text \<open>
  \<open>receive_json\<close>, for the message \<open>m\<close> that \<open>self.socket.receive()\<close> gives (with
  no socket the attribute access raises).  For a binary message that does not end in the
  trailer it returns \<open>None\<close>.  For one that does, the next statement is
  \<open>data = inflator.decompress(self.buffer)\<close>: the module defines no name \<open>inflator\<close>
  (the object is the attribute \<open>self.inflator\<close>), so the statement raises
  \<open>NameError\<close> and the two statements after it are not reached.  No statement of the
  method adds to \<open>self.buffer\<close>.
\<close>

definition receive_json :: "ws_message \<Rightarrow> DiscordWebsocket \<Rightarrow> (error + json) \<times> DiscordWebsocket" where
  "receive_json m w =
     (case socket w of
        None \<Rightarrow> (Inl AttributeError, w)
      | Some s \<Rightarrow>
          (case m of
             Bytes data \<Rightarrow>
               if length data < 4 \<or> drop (length data - 4) data \<noteq> [0x00, 0x00, 0xff, 0xff]
               then (Inr JNull, w)
               else (Inl NameError, w)
           | Text v \<Rightarrow> (Inr v, w)))"

text \<open>
  Everything the client does that can be seen from outside, in the order it does it: a
  frame written to the socket (the value given to \<open>json.dumps\<close>), a call of
  \<open>dispatch\<close>, a \<open>time.sleep\<close> of the heartbeat thread with its seconds.
\<close>

datatype effect =
    Send json
  | Dispatch event
  | Sleep rat

text \<open>
  The client with its surroundings: \<open>ws\<close>, \<open>state\<close> and \<open>intents\<close> are the
  attributes \<open>_ws\<close>, \<open>_state\<close> and \<open>intents.value\<close> of \<open>Client\<close>, \<open>platform\<close> is
  \<open>sys.platform\<close>, \<open>trace\<close> collects the effects.  Listeners are not modelled:
  \<open>Client.dispatch\<close> is the effect \<open>Dispatch\<close>.
\<close>

record world =
  ws :: DiscordWebsocket
  state :: State
  intents :: int
  platform :: string
  trace :: "effect list"

text \<open>
  A step changes the world and may raise; what it changed before raising stays changed.
\<close>

type_synonym 'a step = "world \<Rightarrow> (error + 'a) \<times> world"

definition bindW :: "'a step \<Rightarrow> ('a \<Rightarrow> 'b step) \<Rightarrow> 'b step" where
  "bindW m f w = (case m w of (Inl e, w') \<Rightarrow> (Inl e, w') | (Inr x, w') \<Rightarrow> f x w')"

definition lift :: "error + 'a \<Rightarrow> 'a step" where
  "lift r w = (r, w)"

text \<open>
  \<open>send_json\<close>: \<open>self.socket.send_str(json.dumps(data))\<close>.  What the socket does
  with the text is not part of the model: a write to a socket is the effect \<open>Send\<close>.
\<close>

definition send_json :: "json \<Rightarrow> unit step" where
  "send_json data w =
     (case socket (ws w) of
        None \<Rightarrow> (Inl AttributeError, w)
      | Some s \<Rightarrow> (Inr (), w\<lparr>trace := trace w @ [Send data]\<rparr>))"

definition heartbeat_frame :: "DiscordWebsocket \<Rightarrow> json" where
  "heartbeat_frame w = JDict [(''op'', JInt 1), (''d'', sequence w)]"

definition identify_frame :: "world \<Rightarrow> json" where
  "identify_frame w =
     JDict [(''op'', JInt 2),
            (''d'', JDict [(''token'', (case token (http (state w)) of
                                          None \<Rightarrow> JNull | Some t \<Rightarrow> JStr t)),
                           (''intents'', JInt (intents w)),
                           (''properties'',
                              JDict [(''$os'', JStr (platform w)),
                                     (''$browser'', JStr ''ScrapCord''),
                                     (''$device'', JStr ''ScrapCord'')])])]"

definition identify :: "unit step" where
  "identify w = send_json (identify_frame w) w"

text \<open>\<open>x / 1000.0\<close>.\<close>

fun div_1000 :: "json \<Rightarrow> error + rat" where
  "div_1000 (JInt n) = Inr (of_int n / 1000)"
| "div_1000 (JBool b) = Inr (if b then 1 / 1000 else 0)"
| "div_1000 _ = Inl TypeError"

definition set_interval :: "rat \<Rightarrow> unit step" where
  "set_interval q w =
     (Inr (), w\<lparr>ws := (ws w)\<lparr>heartbeat := (heartbeat (ws w))\<lparr>interval := Some q\<rparr>\<rparr>\<rparr>)"

text \<open>\<open>self.heartbeat.start()\<close>.\<close>

definition heartbeat_start :: "unit step" where
  "heartbeat_start w =
     (if started (heartbeat (ws w)) then (Inl RuntimeError, w)
      else (Inr (), w\<lparr>ws := (ws w)\<lparr>heartbeat := (heartbeat (ws w))\<lparr>started := True\<rparr>\<rparr>\<rparr>))"

definition set_sequence :: "json \<Rightarrow> unit step" where
  "set_sequence v w = (Inr (), w\<lparr>ws := (ws w)\<lparr>sequence := v\<rparr>\<rparr>)"

definition set_session_id :: "json \<Rightarrow> unit step" where
  "set_session_id v w = (Inr (), w\<lparr>ws := (ws w)\<lparr>session_id := v\<rparr>\<rparr>)"

text \<open>
  \<open>self.client._state.process_event(event_name, data)\<close>.  When the handler raises, the
  world keeps the state from before the handler: what the handler had changed by then is
  not modelled.
\<close>

definition run_process_event :: "json \<Rightarrow> json \<Rightarrow> unit step" where
  "run_process_event name data w =
     (case process_event name data (state w) of
        Inl e \<Rightarrow> (Inl e, w)
      | Inr (st, evs) \<Rightarrow> (Inr (), w\<lparr>state := st, trace := trace w @ map Dispatch evs\<rparr>))"

text \<open>\<open>await self.receive_json()\<close> as a step of the client.\<close>

definition receive_step :: "ws_message \<Rightarrow> json step" where
  "receive_step m w = (case receive_json m (ws w) of (r, ws') \<Rightarrow> (r, w\<lparr>ws := ws'\<rparr>))"

text \<open>The body of the loop of \<open>handle_events\<close>, for the message \<open>m\<close> that arrives.\<close>

definition handle_message :: "ws_message \<Rightarrow> unit step" where
  "handle_message m =
     bindW (receive_step m) (\<lambda>msg.
     bindW (lift (getitem msg ''op'')) (\<lambda>op.
     bindW (lift (getitem msg ''d'')) (\<lambda>data.
     bindW (lift (dict_get msg ''s'' JNull)) (\<lambda>v_sequence.
     bindW (if truthy v_sequence then set_sequence v_sequence else lift (Inr ())) (\<lambda>_.
     if eq_int op 10 then
       bindW (lift (getitem data ''heartbeat_interval'')) (\<lambda>v_interval.
       bindW (lift (div_1000 v_interval)) (\<lambda>q.
       bindW (set_interval q) (\<lambda>_.
       bindW (\<lambda>w. send_json (heartbeat_frame (ws w)) w) (\<lambda>_.
       bindW heartbeat_start (\<lambda>_.
       identify)))))
     else if eq_int op 1 then
       (\<lambda>w. send_json (heartbeat_frame (ws w)) w)
     else if eq_int op 0 then
       bindW (lift (getitem msg ''t'')) (\<lambda>event_name.
       bindW (if event_name = JStr ''READY''
              then bindW (lift (getitem data ''session_id'')) set_session_id
              else lift (Inr ())) (\<lambda>_.
       run_process_event event_name data))
     else if eq_int op 7 then
       lift (Inl ReconnectDiscordWebsocket)
     else lift (Inr ()))))))"

text \<open>
  \<open>handle_events\<close>, run on the messages the socket delivers.  The loop ends when
  \<open>is_closed\<close> holds (\<open>Closed\<close>); with no message left it waits in \<open>receive\<close>
  (\<open>Pending\<close>).
\<close>

datatype loop_end = Closed | Pending

fun handle_events :: "ws_message list \<Rightarrow> loop_end step" where
  "handle_events [] w = (Inr (if is_closed (ws w) then Closed else Pending), w)"
| "handle_events (m # ms) w =
     (if is_closed (ws w) then (Inr Closed, w)
      else case handle_message m w of
             (Inl e, w') \<Rightarrow> (Inl e, w')
           | (Inr u, w') \<Rightarrow> handle_events ms w')"

text \<open>
  \<open>DiscordWebsocket.start\<close>: the gateway url from the HTTP client, a new socket, then the
  read loop on the messages that socket delivers.
\<close>

definition start :: "error + json \<Rightarrow> ws_message list \<Rightarrow> loop_end step" where
  "start exchange frames =
     bindW (\<lambda>w. (get_gateway (http (state w)) exchange, w)) (\<lambda>url.
     bindW (lift (ws_connect url)) (\<lambda>s.
     bindW (\<lambda>w. (Inr (), w\<lparr>ws := (ws w)\<lparr>socket := Some s\<rparr>\<rparr>)) (\<lambda>_.
     handle_events frames)))"

text \<open>
  \<open>HeartbeatHandler._handler\<close>, the body of the heartbeat thread, for at most \<open>n\<close>
  rounds of its loop, running from the world as it finds it (what the read loop does
  between two rounds is not interleaved).  \<open>time.sleep\<close> raises \<open>TypeError\<close> for
  \<open>None\<close> and \<open>ValueError\<close> for a negative length.
\<close>

definition sleep :: "rat option \<Rightarrow> unit step" where
  "sleep q w =
     (case q of
        None \<Rightarrow> (Inl TypeError, w)
      | Some t \<Rightarrow> if t < 0 then (Inl ValueError, w)
                  else (Inr (), w\<lparr>trace := trace w @ [Sleep t]\<rparr>))"

definition handler_round :: "unit step" where
  "handler_round =
     bindW (\<lambda>w. send_json (heartbeat_frame (ws w)) w) (\<lambda>_.
     (\<lambda>w. sleep (interval (heartbeat (ws w))) w))"

fun handler :: "nat \<Rightarrow> loop_end step" where
  "handler 0 w = (Inr (if is_closed (ws w) then Closed else Pending), w)"
| "handler (Suc n) w =
     (if is_closed (ws w) then (Inr Closed, w)
      else case handler_round w of
             (Inl e, w') \<Rightarrow> (Inl e, w')
           | (Inr u, w') \<Rightarrow> handler n w')"

section \<open>core.py\<close>

text \<open>
  \<open>Client.connect\<close> is \<open>try: await self._ws.start()\<close> with one \<open>except\<close> clause, for
  \<open>ReconnectDiscordWebsocket\<close>.  The first statement of the clause is a call of
  \<open>_log.info\<close>; \<open>core.py\<close> defines and imports no name \<open>_log\<close>, so the clause raises
  \<open>NameError\<close> there, and its later statements (closing the socket, the recursive
  \<open>connect\<close>, sending the resume frame) are not reached.  \<open>connect_except\<close> is the
  \<open>except\<close> clause applied to what the \<open>try\<close> block did.
\<close>

definition connect_except :: "(error + loop_end) \<times> world \<Rightarrow> (error + unit) \<times> world" where
  "connect_except r =
     (case r of
        (Inl e, w) \<Rightarrow> if e = ReconnectDiscordWebsocket then (Inl NameError, w) else (Inl e, w)
      | (Inr x, w) \<Rightarrow> (Inr (), w))"

definition connect :: "string \<Rightarrow> error + json \<Rightarrow> ws_message list \<Rightarrow> unit step" where
  "connect tok exchange frames w =
     connect_except
       (start exchange frames
          (w\<lparr>state := (state w)\<lparr>http := (http (state w))\<lparr>token := Some tok\<rparr>\<rparr>\<rparr>))"

section \<open>Notions used in the statements\<close>

text \<open>
  A resume frame is a frame sent with opcode 6.
\<close>

definition is_resume :: "effect \<Rightarrow> bool" where
  "is_resume e =
     (case e of
        Send f \<Rightarrow> (case getitem f ''op'' of Inr v \<Rightarrow> eq_int v 6 | Inl x \<Rightarrow> False)
      | _ \<Rightarrow> False)"

text \<open>
  A step keeps the resume frames when it adds none to the trace.
\<close>

definition keeps_resumes :: "'a step \<Rightarrow> bool" where
  "keeps_resumes m =
     (\<forall>w. filter is_resume (trace (snd (m w))) = filter is_resume (trace w))"

text \<open>
  What \<open>_add_member\<close> does to the guild and to \<open>users\<close>, once the member is built.
\<close>

definition put_member :: "member \<Rightarrow> guild \<Rightarrow> guild" where
  "put_member m g =
     g\<lparr>guild_members := AList.update (user_id (member_user m)) m (guild_members g)\<rparr>"

definition ensure_user :: "user \<Rightarrow> (int \<times> user) list \<Rightarrow> (int \<times> user) list" where
  "ensure_user u us = (if map_of us (user_id u) = None then AList.update (user_id u) u us else us)"

text \<open>
  The invariant of the specification's data model: the account of every cached member is
  a key of the top-level account mapping.
\<close>

definition members_resolve :: "State \<Rightarrow> bool" where
  "members_resolve st =
     list_all (\<lambda>(i, g).
       list_all (\<lambda>(k, m). map_of (users st) (user_id (member_user m)) \<noteq> None)
         (guild_members g))
       (guilds st)"

definition guild_resolves :: "(int \<times> user) list \<Rightarrow> guild \<Rightarrow> bool" where
  "guild_resolves us g =
     list_all (\<lambda>(k, m). map_of us (user_id (member_user m)) \<noteq> None) (guild_members g)"

text \<open>
  The server events of claim C5, run through \<open>process_event\<close> under their gateway
  names; a run stops at the first handler that raises.
\<close>

datatype guild_event = GUILD_CREATE json | GUILD_UPDATE json | GUILD_DELETE json

fun event_name :: "guild_event \<Rightarrow> string" where
  "event_name (GUILD_CREATE d) = ''GUILD_CREATE''"
| "event_name (GUILD_UPDATE d) = ''GUILD_UPDATE''"
| "event_name (GUILD_DELETE d) = ''GUILD_DELETE''"

fun event_payload :: "guild_event \<Rightarrow> json" where
  "event_payload (GUILD_CREATE d) = d"
| "event_payload (GUILD_UPDATE d) = d"
| "event_payload (GUILD_DELETE d) = d"

definition handle_guild_event :: "guild_event \<Rightarrow> State \<Rightarrow> handled" where
  "handle_guild_event e st = process_event (JStr (event_name e)) (event_payload e) st"

fun run_events :: "guild_event list \<Rightarrow> State \<Rightarrow> handled" where
  "run_events [] st = Inr (st, [])"
| "run_events (e # es) st =
     bindE (handle_guild_event e st) (\<lambda>(st', evs).
     bindE (run_events es st') (\<lambda>(st'', evs').
     Inr (st'', evs @ evs')))"

text \<open>
  The net effect on the server mapping, following the words of the specification: a create
  marked unavailable changes nothing, any other create inserts or replaces the server under
  its id, an update replaces a server that is cached and is dropped otherwise, a delete
  removes the entry.  The server of a payload is the one \<open>Guild\<close> builds from it.
\<close>

definition marked_unavailable :: "json \<Rightarrow> bool" where
  "marked_unavailable d =
     (case dict_get d ''unavailable'' JNull of Inr v \<Rightarrow> truthy v | Inl e \<Rightarrow> False)"

definition payload_id :: "json \<Rightarrow> int option" where
  "payload_id d = get_snowflake d ''id''"

definition payload_server :: "json \<Rightarrow> guild option" where
  "payload_server d = (case Guild d [] of Inr (g, us) \<Rightarrow> Some g | Inl e \<Rightarrow> None)"

fun net_effect :: "guild_event \<Rightarrow> (int \<rightharpoonup> guild) \<Rightarrow> (int \<rightharpoonup> guild)" where
  "net_effect (GUILD_CREATE d) m =
     (if marked_unavailable d then m
      else case (payload_id d, payload_server d) of
             (Some k, Some g) \<Rightarrow> m(k \<mapsto> g)
           | _ \<Rightarrow> m)"
| "net_effect (GUILD_UPDATE d) m =
     (case (payload_id d, payload_server d) of
        (Some k, Some g) \<Rightarrow> if m k = None then m else m(k \<mapsto> g)
      | _ \<Rightarrow> m)"
| "net_effect (GUILD_DELETE d) m =
     (case payload_id d of Some k \<Rightarrow> m(k := None) | None \<Rightarrow> m)"

section \<open>Sample payloads and states\<close>

text \<open>
  Concrete payloads, and the state a fresh client has after the \<open>GUILD_CREATE\<close> of
  \<open>sample_guild\<close>: guild 10 with member 99 and the roles 10, 11, 12 and 13, created in
  that order.  They are the inputs at which the theorems below are instantiated.
\<close>

definition sample_user :: "string \<Rightarrow> json" where
  "sample_user i =
     JDict [(''username'', JStr ''a''), (''id'', JStr i), (''discriminator'', JStr ''0001'')]"

definition sample_user_object :: "int \<Rightarrow> user" where
  "sample_user_object i =
     \<lparr> username = JStr ''a'', user_id = i, discriminator = JStr ''0001'', bot = JBool False,
       system = JBool False, user_avatar = JNull, user_banner = JNull,
       user_accent_colour = JNull, user_public_flags = JInt 0 \<rparr>"

definition sample_member :: "string \<Rightarrow> json" where
  "sample_member i = JDict [(''user'', sample_user i)]"

definition sample_member_object :: "int \<Rightarrow> member" where
  "sample_member_object i =
     \<lparr> member_user = sample_user_object i, nick = JStr ''n'', deaf = JBool False,
       mute = JBool False, pending = JBool False, member_joined_at = JNull,
       member_roles = JList [], member_premium_since = JNull, member_avatar = JNull,
       member_permissions = JNull \<rparr>"

definition sample_role :: "string \<Rightarrow> int \<Rightarrow> json" where
  "sample_role i p = JDict [(''id'', JStr i), (''name'', JStr ''r''), (''position'', JInt p)]"

definition sample_guild :: json where
  "sample_guild =
     JDict [(''id'', JStr ''10''), (''name'', JStr ''g''),
            (''members'', JList [sample_member ''99'']),
            (''roles'', JList [sample_role ''10'' 0, sample_role ''11'' 1,
                               sample_role ''12'' 3, sample_role ''13'' 2])]"

definition late_default_guild :: json where
  "late_default_guild =
     JDict [(''id'', JStr ''10''), (''name'', JStr ''g''),
            (''roles'', JList [sample_role ''11'' 1, sample_role ''10'' 0])]"

definition sample_cached_guild :: guild where
  "sample_cached_guild = fst (projr (Guild sample_guild []))"

definition sample_state :: State where
  "sample_state = fst (projr (handle_guild_create sample_guild State_init))"


definition member_remove_nested :: "string \<Rightarrow> json" where
  "member_remove_nested i = JDict [(''guild_id'', JStr ''10''), (''user'', sample_user i)]"

definition member_update_sample :: "string \<Rightarrow> json" where
  "member_update_sample i = JDict [(''guild_id'', JStr ''10''), (''user'', sample_user i), (''nick'', JStr ''n'')]"

definition role_update_sample :: "string \<Rightarrow> json" where
  "role_update_sample i = JDict [(''guild_id'', JStr ''10''), (''role'', sample_role i 4)]"

definition hello_frame :: "int \<Rightarrow> json" where
  "hello_frame n = JDict [(''op'', JInt 10), (''d'', JDict [(''heartbeat_interval'', JInt n)])]"

definition ready_frame :: json where
  "ready_frame =
     JDict [(''op'', JInt 0), (''t'', JStr ''READY''), (''s'', JInt 1),
            (''d'', JDict [(''session_id'', JStr ''abc''), (''user'', sample_user ''1'')])]"

definition reconnect_frame :: json where
  "reconnect_frame = JDict [(''op'', JInt 7), (''d'', JNull)]"

definition invalid_session_frame :: json where
  "invalid_session_frame = JDict [(''op'', JInt 9), (''d'', JBool False)]"

definition sample_world :: world where
  "sample_world =
     \<lparr> ws = DiscordWebsocket_init\<lparr>socket := Some \<lparr> closed = False \<rparr>\<rparr>,
       state = State_init, intents = 513, platform = ''linux'', trace = [] \<rparr>"

definition cached_world :: world where
  "cached_world = sample_world\<lparr>state := sample_state\<rparr>"

definition resumable_world :: world where
  "resumable_world =
     \<lparr> ws = \<lparr> socket = Some \<lparr> closed = False \<rparr>, session_id = JStr ''abc'',
              sequence = JInt 5,
              heartbeat = \<lparr> interval = Some (165 / 4), started = True \<rparr>, buffer = [] \<rparr>,
       state = State_init, intents = 513, platform = ''linux'', trace = [] \<rparr>"

definition after_hello :: world where
  "after_hello = snd (handle_events [Text (hello_frame 41250)] sample_world)"

definition after_member_add :: State where
  "after_member_add =
     fst (projr (handle_guild_member_add (member_update_sample ''77'') sample_state))"

definition second_guild :: json where
  "second_guild = JDict [(''id'', JStr ''30''), (''name'', JStr ''h'')]"

definition unavailable_guild :: json where
  "unavailable_guild = JDict [(''id'', JStr ''20''), (''unavailable'', JBool True)]"

definition renamed_guild :: json where
  "renamed_guild = JDict [(''id'', JStr ''10''), (''name'', JStr ''g2'')]"

definition sample_events :: "guild_event list" where
  "sample_events =
     [GUILD_CREATE sample_guild, GUILD_CREATE sample_guild, GUILD_CREATE unavailable_guild,
      GUILD_CREATE second_guild, GUILD_UPDATE renamed_guild,
      GUILD_DELETE (JDict [(''id'', JStr ''30'')])]"

definition after_events :: State where
  "after_events = fst (projr (run_events sample_events State_init))"

definition events_dispatched :: "event list" where
  "events_dispatched = snd (projr (run_events sample_events State_init))"

definition heartbeat_ack_frame :: json where
  "heartbeat_ack_frame = JDict [(''op'', JInt 11), (''d'', JNull)]"

definition member_update_renamed :: json where
  "member_update_renamed =
     JDict [(''guild_id'', JStr ''10''),
            (''user'', JDict [(''username'', JStr ''b''), (''id'', JStr ''99''),
                              (''discriminator'', JStr ''0001'')])]"

definition renamed_member_object :: member where
  "renamed_member_object = projr (Member member_update_renamed)"

definition after_member_update :: State where
  "after_member_update =
     fst (projr (handle_guild_member_update member_update_renamed sample_state))"

section \<open>Basic facts\<close>

lemma bindE_Inl [simp]: "bindE (Inl e) f = Inl e"
  by (simp add: bindE_def)

lemma bindE_Inr [simp]: "bindE (Inr x) f = f x"
  by (simp add: bindE_def)

lemma bindE_eq_Inr: "bindE m f = Inr y \<longleftrightarrow> (\<exists>x. m = Inr x \<and> f x = Inr y)"
  by (cases m) simp_all

lemma getitem_Inr_dict: "getitem d k = Inr v \<Longrightarrow> \<exists>kvs. d = JDict kvs \<and> map_of kvs k = Some v"
  by (cases d) (auto split: option.splits)

lemma getitem_dict_get:
  "getitem msg k = Inr v \<Longrightarrow> \<exists>s. dict_get msg k' d = Inr s"
  by (cases msg) simp_all

lemma get_snowflake_catches_all:
  assumes "bindE (getitem data key) py_int = Inl e"
  shows "e \<in> {KeyError, TypeError, ValueError}"
proof (cases "getitem data key")
  case (Inl x)
  with assms show ?thesis
    by (cases data) (auto split: option.splits)
next
  case (Inr v)
  with assms show ?thesis
    by (cases v) (auto split: option.splits)
qed

lemma eq_int_distinct:
  assumes "eq_int op k" and "k \<noteq> j"
  shows "\<not> eq_int op j"
  using assms by (cases op) (auto split: if_splits)

lemma User_id:
  assumes "User d = Inr u"
  shows "\<exists>v. getitem d ''id'' = Inr v \<and> py_int v = Inr (user_id u)"
  using assms unfolding User_def by (auto simp: bindE_eq_Inr)

lemma Member_user:
  assumes "Member d = Inr m"
  shows "\<exists>ud. getitem d ''user'' = Inr ud \<and> User ud = Inr (member_user m)"
  using assms unfolding Member_def by (auto simp: bindE_eq_Inr)

lemma set_guild_same:
  assumes "get_guild st i = Some g"
  shows "set_guild st i g = st"
  using assms by (cases i) (simp_all add: get_guild_def set_guild_def AList.update_triv)

lemma get_guild_set_guild:
  assumes "get_guild st i = Some g"
  shows "get_guild (set_guild st i g') i = Some g'"
  using assms by (cases i) (simp_all add: get_guild_def set_guild_def AList.update_conv')

lemma get_guild_users [simp]: "get_guild (st\<lparr>users := us\<rparr>) i = get_guild st i"
  by (cases i) (simp_all add: get_guild_def)



lemma add_member_Inr:
  assumes "Member d = Inr m"
  shows "\<exists>us'. add_member d g us = Inr (m, g\<lparr>guild_members := AList.update (user_id (member_user m)) m (guild_members g)\<rparr>, us')
     \<and> us' = (if map_of us (user_id (member_user m)) = None then AList.update (user_id (member_user m)) (member_user m) us else us)"
proof -
  from Member_user [OF assms] obtain ud where ud: "getitem d ''user'' = Inr ud" "User ud = Inr (member_user m)"
    by blast
  from User_id [OF ud(2)] obtain v where v: "getitem ud ''id'' = Inr v" "py_int v = Inr (user_id (member_user m))"
    by blast
  show ?thesis using assms ud v by (simp add: add_member_def add_user_def Let_def)
qed

lemma sample_cached: "get_guild sample_state (Some 10) = Some sample_cached_guild"
  by code_simp

section \<open>Building a guild\<close>

lemma add_member_iff:
  "add_member d g us = Inr r \<longleftrightarrow>
     (\<exists>m. Member d = Inr m \<and> r = (m, put_member m g, ensure_user (member_user m) us))"
proof
  assume a: "add_member d g us = Inr r"
  then obtain m where m: "Member d = Inr m"
    by (auto simp: add_member_def bindE_eq_Inr)
  from add_member_Inr [OF m, of g us] a m
  show "\<exists>m. Member d = Inr m \<and> r = (m, put_member m g, ensure_user (member_user m) us)"
    by (auto simp: put_member_def ensure_user_def)
next
  assume "\<exists>m. Member d = Inr m \<and> r = (m, put_member m g, ensure_user (member_user m) us)"
  then obtain m where m: "Member d = Inr m"
    and r: "r = (m, put_member m g, ensure_user (member_user m) us)" by blast
  from add_member_Inr [OF m, of g us] r
  show "add_member d g us = Inr r"
    by (auto simp: put_member_def ensure_user_def)
qed

lemma ensure_user_keys: "fst ` set (ensure_user u us) = insert (user_id u) (fst ` set us)"
  by (auto simp: ensure_user_def AList.dom_update map_of_eq_None_iff)

lemma ensure_user_present:
  "user_id u \<in> fst ` set us \<Longrightarrow> ensure_user u us = us"
  by (simp add: ensure_user_def map_of_eq_None_iff)

lemma ensure_user_lookup:
  "map_of (ensure_user u us) k =
     (if k = user_id u \<and> map_of us k = None then Some u else map_of us k)"
  by (auto simp: ensure_user_def AList.update_conv')

lemma set_update_subset: "set (AList.update k v al) \<subseteq> insert (k, v) (set al)"
  by (induction al) auto

lemma update_members_keys:
  "update_members ms g us = Inr (g1, us1) \<Longrightarrow> fst ` set us \<subseteq> fst ` set us1"
proof (induction ms arbitrary: g us)
  case Nil
  then show ?case by simp
next
  case (Cons d ms)
  from Cons.prems obtain r where r: "add_member d g us = Inr r"
    and rest: "(case r of (x, g', us') \<Rightarrow> update_members ms g' us') = Inr (g1, us1)"
    by (auto simp: bindE_eq_Inr)
  from r obtain m where m: "Member d = Inr m"
    and r': "r = (m, put_member m g, ensure_user (member_user m) us)"
    by (auto simp: add_member_iff)
  from rest r' have "update_members ms (put_member m g) (ensure_user (member_user m) us) = Inr (g1, us1)"
    by simp
  from Cons.IH [OF this] show ?case by (auto simp: ensure_user_keys)
qed

lemma update_members_replay:
  "update_members ms g us = Inr (g1, us1) \<Longrightarrow> fst ` set us1 \<subseteq> fst ` set W
     \<Longrightarrow> update_members ms g W = Inr (g1, W)"
proof (induction ms arbitrary: g us)
  case Nil
  then show ?case by simp
next
  case (Cons d ms)
  from Cons.prems(1) obtain r where r: "add_member d g us = Inr r"
    and rest: "(case r of (x, g', us') \<Rightarrow> update_members ms g' us') = Inr (g1, us1)"
    by (auto simp: bindE_eq_Inr)
  from r obtain m where m: "Member d = Inr m"
    and r': "r = (m, put_member m g, ensure_user (member_user m) us)"
    by (auto simp: add_member_iff)
  from rest r' have
    tail: "update_members ms (put_member m g) (ensure_user (member_user m) us) = Inr (g1, us1)"
    by simp
  from update_members_keys [OF tail] Cons.prems(2)
  have "user_id (member_user m) \<in> fst ` set W" by (auto simp: ensure_user_keys)
  then have "ensure_user (member_user m) W = W" by (rule ensure_user_present)
  with m have "add_member d g W = Inr (m, put_member m g, W)"
    by (simp add: add_member_iff)
  with Cons.IH [OF tail Cons.prems(2)] show ?case by simp
qed

lemma update_members_indep:
  "update_members ms g us = Inr (g1, us1) \<Longrightarrow> \<exists>W1. update_members ms g W = Inr (g1, W1)"
proof (induction ms arbitrary: g us W)
  case Nil
  then show ?case by simp
next
  case (Cons d ms)
  from Cons.prems(1) obtain r where r: "add_member d g us = Inr r"
    and rest: "(case r of (x, g', us') \<Rightarrow> update_members ms g' us') = Inr (g1, us1)"
    by (auto simp: bindE_eq_Inr)
  from r obtain m where m: "Member d = Inr m"
    and r': "r = (m, put_member m g, ensure_user (member_user m) us)"
    by (auto simp: add_member_iff)
  from rest r' have
    tail: "update_members ms (put_member m g) (ensure_user (member_user m) us) = Inr (g1, us1)"
    by simp
  from m have "add_member d g W = Inr (m, put_member m g, ensure_user (member_user m) W)"
    by (simp add: add_member_iff)
  with Cons.IH [OF tail, of "ensure_user (member_user m) W"] show ?case by simp
qed

lemma Guild_cases:
  "Guild d us = Inr (g, us') \<longleftrightarrow>
     (\<exists>g0 v_members ms g1 v_roles rs.
        guild_attributes d = Inr g0 \<and> dict_get d ''members'' (JList []) = Inr v_members
        \<and> py_iter v_members = Inr ms \<and> update_members ms g0 us = Inr (g1, us')
        \<and> dict_get d ''roles'' (JList []) = Inr v_roles \<and> py_iter v_roles = Inr rs
        \<and> update_roles rs g1 = Inr g)"
  by (auto simp: Guild_def bindE_eq_Inr)

lemma Guild_replay:
  assumes "Guild d us = Inr (g, us')"
  shows "Guild d us' = Inr (g, us')"
proof -
  from assms obtain g0 v_members ms g1 v_roles rs where
    a: "guild_attributes d = Inr g0" "dict_get d ''members'' (JList []) = Inr v_members"
       "py_iter v_members = Inr ms" "update_members ms g0 us = Inr (g1, us')"
       "dict_get d ''roles'' (JList []) = Inr v_roles" "py_iter v_roles = Inr rs"
       "update_roles rs g1 = Inr g"
    unfolding Guild_cases by blast
  from update_members_replay [OF a(4), of us']
  have "update_members ms g0 us' = Inr (g1, us')" by simp
  with a show ?thesis unfolding Guild_cases by blast
qed

lemma Guild_indep:
  assumes "Guild d us = Inr (g, us')"
  shows "\<exists>W'. Guild d W = Inr (g, W')"
proof -
  from assms obtain g0 v_members ms g1 v_roles rs where
    a: "guild_attributes d = Inr g0" "dict_get d ''members'' (JList []) = Inr v_members"
       "py_iter v_members = Inr ms" "update_members ms g0 us = Inr (g1, us')"
       "dict_get d ''roles'' (JList []) = Inr v_roles" "py_iter v_roles = Inr rs"
       "update_roles rs g1 = Inr g"
    unfolding Guild_cases by blast
  from update_members_indep [OF a(4), of W] obtain W1 where
    "update_members ms g0 W = Inr (g1, W1)" by blast
  with a show ?thesis unfolding Guild_cases by blast
qed

section \<open>Member events\<close>




text \<open>
  The handler builds the account from the payload itself, not from its \<open>user\<close> entry:
  a payload that carries the account under \<open>user\<close> only makes it raise.
\<close>

lemma member_remove_nested_raises:
  "handle_guild_member_remove (member_remove_nested ''99'') sample_state = Inl KeyError"
  by code_simp

text \<open>
  Claim C10.  \<open>GUILD_MEMBER_UPDATE\<close> for a cached guild and a member that is not
  cached: the handler stores the member built from the payload and dispatches exactly
  \<open>member_update\<close> with \<open>None\<close> as the value before.
\<close>

theorem member_update_absent:
  assumes cached: "get_guild st (get_snowflake data ''guild_id'') = Some g"
      and built: "Member data = Inr m"
      and absent: "get_member g (user_id (member_user m)) = None"
  shows "\<exists>st' g'. handle_guild_member_update data st = Inr (st', [Member_update None m])
           \<and> get_guild st' (get_snowflake data ''guild_id'') = Some g'
           \<and> get_member g' (user_id (member_user m)) = Some m"
proof -
  let ?i = "get_snowflake data ''guild_id''"
  let ?k = "user_id (member_user m)"
  from Member_user [OF built] obtain ud where ud: "getitem data ''user'' = Inr ud" "User ud = Inr (member_user m)"
    by blast
  from User_id [OF ud(2)] obtain v where v: "getitem ud ''id'' = Inr v" "py_int v = Inr ?k"
    by blast
  let ?g' = "g\<lparr>guild_members := AList.update ?k m (guild_members g)\<rparr>"
  from add_member_Inr [OF built, of g "users st"] obtain us' where
    am: "add_member data g (users st) = Inr (m, ?g', us')" by blast
  let ?st' = "set_guild (st\<lparr>users := us'\<rparr>) ?i ?g'"
  have run: "handle_guild_member_update data st = Inr (?st', [Member_update None m])"
    using cached ud v absent am by (simp add: handle_guild_member_update_def)
  have "get_guild (st\<lparr>users := us'\<rparr>) ?i = Some g"
    using cached by simp
  then have c: "get_guild ?st' ?i = Some ?g'" by (rule get_guild_set_guild)
  have "get_member ?g' ?k = Some m"
    by (simp add: get_member_def AList.update_conv')
  with run c show ?thesis by blast
qed

theorem member_update_absent_witness:
  "get_member sample_cached_guild 77 = None
   \<and> (\<exists>st' g'. handle_guild_member_update (member_update_sample ''77'') sample_state
                 = Inr (st', [Member_update None (sample_member_object 77)])
            \<and> get_guild st' (Some 10) = Some g'
            \<and> get_member g' 77 = Some (sample_member_object 77))"
proof -
  have c: "get_guild sample_state (get_snowflake (member_update_sample ''77'') ''guild_id'')
             = Some sample_cached_guild"
    by code_simp
  have m: "Member (member_update_sample ''77'') = Inr (sample_member_object 77)"
    by code_simp
  have a: "get_member sample_cached_guild (user_id (member_user (sample_member_object 77))) = None"
    by code_simp
  have i: "get_snowflake (member_update_sample ''77'') ''guild_id'' = Some 10"
    by code_simp
  have u: "user_id (member_user (sample_member_object 77)) = 77"
    by code_simp
  show ?thesis
    using member_update_absent [OF c m a] a unfolding i u by simp
qed

lemma member_handlers_step:
  assumes h: "h = handle_guild_member_add \<or> h = handle_guild_member_update"
      and cached: "get_guild st (get_snowflake data ''guild_id'') = Some g"
      and run: "h data st = Inr (st', evs)"
  shows "\<exists>m. Member data = Inr m
           \<and> st' = set_guild (st\<lparr>users := ensure_user (member_user m) (users st)\<rparr>)
                     (get_snowflake data ''guild_id'') (put_member m g)"
  using h
proof
  assume "h = handle_guild_member_add"
  with run cached show ?thesis
    by (auto simp: handle_guild_member_add_def bindE_eq_Inr add_member_iff)
next
  assume "h = handle_guild_member_update"
  with run cached show ?thesis
    by (auto simp: handle_guild_member_update_def bindE_eq_Inr add_member_iff)
qed

lemma members_resolve_step:
  assumes inv: "members_resolve st"
      and cached: "get_guild st i = Some g"
  shows "members_resolve
           (set_guild (st\<lparr>users := ensure_user (member_user m) (users st)\<rparr>) i (put_member m g))"
proof -
  let ?us = "ensure_user (member_user m) (users st)"
  let ?uid = "user_id (member_user m)"
  from cached obtain k where k: "i = Some k" and g: "map_of (guilds st) k = Some g"
    by (cases i) (auto simp: get_guild_def)
  have grow: "map_of ?us j \<noteq> None" if "map_of (users st) j \<noteq> None" for j
    using that by (simp add: ensure_user_lookup)
  have new: "map_of ?us ?uid \<noteq> None"
    by (simp add: ensure_user_lookup)
  have old: "map_of (users st) (user_id (member_user x)) \<noteq> None"
    if "(j, y) \<in> set (guilds st)" and "(l, x) \<in> set (guild_members y)" for j y l x
    using inv that by (auto simp: members_resolve_def list_all_iff)
  have "map_of ?us (user_id (member_user x)) \<noteq> None"
    if a: "(j, y) \<in> set (AList.update k (put_member m g) (guilds st))"
      and b: "(l, x) \<in> set (guild_members y)" for j y l x
  proof (cases "(j, y) \<in> set (guilds st)")
    case True
    from old [OF True b] show ?thesis by (rule grow)
  next
    case False
    with a set_update_subset [of k "put_member m g" "guilds st"]
    have y: "y = put_member m g" by auto
    with b have "(l, x) \<in> set (AList.update ?uid m (guild_members g))"
      by (simp add: put_member_def)
    with set_update_subset [of ?uid m "guild_members g"]
    have "(l, x) = (?uid, m) \<or> (l, x) \<in> set (guild_members g)" by auto
    then show ?thesis
    proof
      assume "(l, x) = (?uid, m)"
      with new show ?thesis by simp
    next
      assume c: "(l, x) \<in> set (guild_members g)"
      from g have "(k, g) \<in> set (guilds st)" by (rule map_of_SomeD)
      from old [OF this c] show ?thesis by (rule grow)
    qed
  qed
  then show ?thesis
    using k by (auto simp: members_resolve_def list_all_iff set_guild_def)
qed

text \<open>
  Claim C8.  When \<open>GUILD_MEMBER_ADD\<close> or \<open>GUILD_MEMBER_UPDATE\<close> for a cached
  guild has been handled, the member built from the payload is cached in the guild, the id
  of its account is a key of \<open>users\<close> (bound to the account that was there, or to the
  member's account when there was none), and if every cached member's account was a key
  of \<open>users\<close> before, this is still so.
\<close>

theorem member_account_cached:
  assumes h: "h = handle_guild_member_add \<or> h = handle_guild_member_update"
      and cached: "get_guild st (get_snowflake data ''guild_id'') = Some g"
      and run: "h data st = Inr (st', evs)"
  shows "\<exists>m g'. Member data = Inr m
           \<and> get_guild st' (get_snowflake data ''guild_id'') = Some g'
           \<and> get_member g' (user_id (member_user m)) = Some m
           \<and> map_of (users st') (user_id (member_user m))
               = Some (case map_of (users st) (user_id (member_user m)) of
                         None \<Rightarrow> member_user m
                       | Some u \<Rightarrow> u)
           \<and> (members_resolve st \<longrightarrow> members_resolve st')"
proof -
  let ?i = "get_snowflake data ''guild_id''"
  from member_handlers_step [OF h cached run] obtain m where
    m: "Member data = Inr m"
    and st': "st' = set_guild (st\<lparr>users := ensure_user (member_user m) (users st)\<rparr>) ?i
                      (put_member m g)"
    by blast
  let ?uid = "user_id (member_user m)"
  have "get_guild (st\<lparr>users := ensure_user (member_user m) (users st)\<rparr>) ?i = Some g"
    using cached by simp
  then have 1: "get_guild st' ?i = Some (put_member m g)"
    unfolding st' by (rule get_guild_set_guild)
  have 2: "get_member (put_member m g) ?uid = Some m"
    by (simp add: get_member_def put_member_def AList.update_conv')
  have "users st' = ensure_user (member_user m) (users st)"
    unfolding st' by (cases ?i) (simp_all add: set_guild_def)
  then have 3: "map_of (users st') ?uid
               = Some (case map_of (users st) ?uid of None \<Rightarrow> member_user m | Some u \<Rightarrow> u)"
    by (auto simp: ensure_user_lookup split: option.splits)
  have 4: "members_resolve st \<longrightarrow> members_resolve st'"
    unfolding st' using cached by (auto intro: members_resolve_step)
  from m 1 2 3 4 show ?thesis by blast
qed

theorem member_account_cached_witness:
  "handle_guild_member_add (member_update_sample ''77'') sample_state
     = Inr (after_member_add, [Member_join (sample_member_object 77)])
   \<and> map_of (users sample_state) 77 = None
   \<and> map_of (users after_member_add) 77 = Some (sample_user_object 77)
   \<and> members_resolve after_member_add
   \<and> username (member_user renamed_member_object) = JStr ''b''
   \<and> username (sample_user_object 99) = JStr ''a''
   \<and> map_sum id fst (handle_guild_member_update member_update_renamed sample_state)
       = Inr after_member_update
   \<and> map_of (users after_member_update) 99 = Some (sample_user_object 99)
   \<and> (\<exists>g'. get_guild after_member_update (Some 10) = Some g'
           \<and> get_member g' 99 = Some renamed_member_object)
   \<and> members_resolve after_member_update"
proof -
  have inv: "members_resolve sample_state" by code_simp
  have a: "map_of (users sample_state) 77 = None" by code_simp
  have c: "get_guild sample_state (get_snowflake (member_update_sample ''77'') ''guild_id'')
             = Some sample_cached_guild"
    by code_simp
  have r: "handle_guild_member_add (member_update_sample ''77'') sample_state
             = Inr (after_member_add, [Member_join (sample_member_object 77)])"
    by code_simp
  have m: "Member (member_update_sample ''77'') = Inr (sample_member_object 77)" by code_simp
  have u: "user_id (member_user (sample_member_object 77)) = 77"
          "member_user (sample_member_object 77) = sample_user_object 77"
    by code_simp+
  from member_account_cached [OF disjI1 [OF refl] c r] inv m a u
  have 1: "map_of (users after_member_add) 77 = Some (sample_user_object 77)
        \<and> members_resolve after_member_add"
    by auto
  have c': "get_guild sample_state (get_snowflake member_update_renamed ''guild_id'')
             = Some sample_cached_guild"
    by code_simp
  have i': "get_snowflake member_update_renamed ''guild_id'' = Some 10" by code_simp
  have r': "handle_guild_member_update member_update_renamed sample_state
             = Inr (after_member_update,
                    snd (projr (handle_guild_member_update member_update_renamed sample_state)))"
    by code_simp
  have m': "Member member_update_renamed = Inr renamed_member_object" by code_simp
  have u': "user_id (member_user renamed_member_object) = 99" by code_simp
  have a': "map_of (users sample_state) 99 = Some (sample_user_object 99)" by code_simp
  have n: "username (member_user renamed_member_object) = JStr ''b''"
          "username (sample_user_object 99) = JStr ''a''"
    by code_simp+
  from member_account_cached [OF disjI2 [OF refl] c' r'] inv m' a' u' i'
  have 2: "map_of (users after_member_update) 99 = Some (sample_user_object 99)
        \<and> (\<exists>g'. get_guild after_member_update (Some 10) = Some g'
               \<and> get_member g' 99 = Some renamed_member_object)
        \<and> members_resolve after_member_update"
    by auto
  have 3: "map_sum id fst (handle_guild_member_update member_update_renamed sample_state)
       = Inr after_member_update"
    by code_simp
  from r a 1 2 3 n show ?thesis by blast
qed

subsection \<open>The invariant in every handler\<close>

text \<open>
  The invariant of claim C8 holds in the initial state and is kept by every event that
  \<open>process_event\<close> handles without an exception.
\<close>

lemma members_resolve_guilds:
  "members_resolve st = list_all (\<lambda>(i, g). guild_resolves (users st) g) (guilds st)"
  by (simp add: members_resolve_def guild_resolves_def)

lemma guild_resolves_grow:
  assumes "guild_resolves us g" and "fst ` set us \<subseteq> fst ` set us'"
  shows "guild_resolves us' g"
  using assms
  by (auto simp: guild_resolves_def list_all_iff map_of_eq_None_iff)

lemma guild_resolves_put:
  assumes "guild_resolves us g"
  shows "guild_resolves (ensure_user (member_user m) us) (put_member m g)"
proof -
  have "map_of (ensure_user (member_user m) us) (user_id (member_user x)) \<noteq> None"
    if "(l, x) \<in> set (AList.update (user_id (member_user m)) m (guild_members g))" for l x
  proof -
    from that set_update_subset [of "user_id (member_user m)" m "guild_members g"]
    have "(l, x) = (user_id (member_user m), m) \<or> (l, x) \<in> set (guild_members g)" by auto
    then show ?thesis
      using assms by (auto simp: ensure_user_lookup guild_resolves_def list_all_iff)
  qed
  then show ?thesis
    by (auto simp: guild_resolves_def list_all_iff put_member_def)
qed

lemma update_members_resolves:
  "update_members ms g us = Inr (g1, us1) \<Longrightarrow> guild_resolves us g \<Longrightarrow> guild_resolves us1 g1"
proof (induction ms arbitrary: g us)
  case Nil
  then show ?case by simp
next
  case (Cons d ms)
  from Cons.prems(1) obtain r where r: "add_member d g us = Inr r"
    and rest: "(case r of (x, g', us') \<Rightarrow> update_members ms g' us') = Inr (g1, us1)"
    by (auto simp: bindE_eq_Inr)
  from r obtain m where
    r': "r = (m, put_member m g, ensure_user (member_user m) us)"
    by (auto simp: add_member_iff)
  from rest r' have
    tail: "update_members ms (put_member m g) (ensure_user (member_user m) us) = Inr (g1, us1)"
    by simp
  from Cons.IH [OF tail guild_resolves_put [OF Cons.prems(2)]] show ?case .
qed

lemma update_roles_members:
  "update_roles rs g = Inr g' \<Longrightarrow> guild_members g' = guild_members g"
proof (induction rs arbitrary: g)
  case Nil
  then show ?case by simp
next
  case (Cons r rs)
  from Cons.prems obtain x g1 where a: "add_role r g = Inr (x, g1)"
    and b: "update_roles rs g1 = Inr g'"
    by (auto simp: bindE_eq_Inr)
  from a have "guild_members g1 = guild_members g"
    by (auto simp: add_role_def bindE_eq_Inr)
  with Cons.IH [OF b] show ?case by simp
qed

lemma guild_attributes_members:
  "guild_attributes d = Inr g0 \<Longrightarrow> guild_members g0 = []"
  unfolding guild_attributes_def by (auto simp: bindE_eq_Inr)

lemma Guild_resolves:
  assumes "Guild d us = Inr (g, us')"
  shows "guild_resolves us' g" and "fst ` set us \<subseteq> fst ` set us'"
proof -
  from assms obtain g0 v_members ms g1 v_roles rs where
    a: "guild_attributes d = Inr g0" "update_members ms g0 us = Inr (g1, us')"
       "update_roles rs g1 = Inr g"
    unfolding Guild_cases by blast
  from guild_attributes_members [OF a(1)] have "guild_resolves us g0"
    by (simp add: guild_resolves_def)
  from update_members_resolves [OF a(2) this] update_roles_members [OF a(3)]
  show "guild_resolves us' g" by (simp add: guild_resolves_def)
  from update_members_keys [OF a(2)] show "fst ` set us \<subseteq> fst ` set us'" .
qed

lemma members_resolve_put:
  assumes "members_resolve st" and "fst ` set (users st) \<subseteq> fst ` set us'"
      and "guild_resolves us' g"
  shows "members_resolve (st\<lparr>users := us', guilds := AList.update k g (guilds st)\<rparr>)"
proof -
  have "guild_resolves us' y" if "(j, y) \<in> set (AList.update k g (guilds st))" for j y
  proof (cases "(j, y) \<in> set (guilds st)")
    case True
    with assms(1) have "guild_resolves (users st) y"
      by (auto simp: members_resolve_guilds list_all_iff)
    then show ?thesis using assms(2) by (rule guild_resolves_grow)
  next
    case False
    with that set_update_subset [of k g "guilds st"] have "y = g" by auto
    with assms(3) show ?thesis by simp
  qed
  then show ?thesis by (auto simp: members_resolve_guilds list_all_iff)
qed

lemma members_resolve_users:
  assumes "members_resolve st" and "fst ` set (users st) \<subseteq> fst ` set us'"
  shows "members_resolve (st\<lparr>users := us'\<rparr>)"
  using assms
  by (auto simp: members_resolve_guilds list_all_iff intro: guild_resolves_grow)

lemma members_resolve_set_guild:
  assumes "members_resolve st" and "get_guild st i = Some g"
      and "set (guild_members g') \<subseteq> set (guild_members g)"
  shows "members_resolve (set_guild st i g')"
proof -
  from assms(2) obtain k where k: "i = Some k" and g: "map_of (guilds st) k = Some g"
    by (cases i) (auto simp: get_guild_def)
  from g have "(k, g) \<in> set (guilds st)" by (rule map_of_SomeD)
  with assms(1) have "guild_resolves (users st) g"
    by (auto simp: members_resolve_guilds list_all_iff)
  with assms(3) have "guild_resolves (users st) g'"
    by (auto simp: guild_resolves_def list_all_iff)
  from members_resolve_put [OF assms(1) subset_refl this, of k] k show ?thesis
    by (simp add: set_guild_def)
qed

lemma members_resolve_init: "members_resolve State_init"
  by (simp add: members_resolve_def State_init_def clear_def)

lemma members_resolve_state_user [simp]:
  "members_resolve (st\<lparr>state_user := x\<rparr>) = members_resolve st"
  by (simp add: members_resolve_def)

lemma add_user_keys:
  assumes "add_user d us = Inr (u, us')"
  shows "fst ` set us \<subseteq> fst ` set us'"
proof -
  from assms obtain k where "us' = AList.update k u us"
    by (auto simp: add_user_def bindE_eq_Inr)
  then show ?thesis by (simp add: AList.dom_update subset_insertI)
qed

lemma handle_ready_resolves:
  assumes "members_resolve st" and "handle_ready d st = Inr (st', evs)"
  shows "members_resolve st'"
proof -
  from assms(2) obtain cu v u us' where a: "add_user v (users st) = Inr (u, us')"
    and s: "st' = st\<lparr>state_user := Some cu, users := us'\<rparr>"
    by (auto simp: handle_ready_def bindE_eq_Inr)
  from members_resolve_users [OF assms(1) add_user_keys [OF a]] s show ?thesis
    by (simp add: members_resolve_def)
qed

lemma handle_user_update_resolves:
  assumes "members_resolve st" and "handle_user_update d st = Inr (st', evs)"
  shows "members_resolve st'"
proof -
  from assms(2) have "st' = st \<or> (\<exists>k u. st' = st\<lparr>users := AList.update k u (users st)\<rparr>)"
    by (auto simp: handle_user_update_def bindE_eq_Inr split: option.splits)
  then show ?thesis
  proof
    assume "st' = st"
    with assms(1) show ?thesis by simp
  next
    assume "\<exists>k u. st' = st\<lparr>users := AList.update k u (users st)\<rparr>"
    then obtain k u where s: "st' = st\<lparr>users := AList.update k u (users st)\<rparr>" by blast
    have "fst ` set (users st) \<subseteq> fst ` set (AList.update k u (users st))"
      by (auto simp: AList.dom_update)
    from members_resolve_users [OF assms(1) this] s show ?thesis by simp
  qed
qed

lemma handle_guild_create_resolves:
  assumes "members_resolve st" and "handle_guild_create d st = Inr (st', evs)"
  shows "members_resolve st'"
proof -
  from assms(2) have
    "st' = st \<or> (\<exists>g us' k. Guild d (users st) = Inr (g, us')
                    \<and> st' = st\<lparr>users := us', guilds := AList.update k g (guilds st)\<rparr>)"
    by (auto simp: handle_guild_create_def add_guild_def bindE_eq_Inr split: if_splits)
  then show ?thesis
  proof
    assume "st' = st"
    with assms(1) show ?thesis by simp
  next
    assume "\<exists>g us' k. Guild d (users st) = Inr (g, us')
                    \<and> st' = st\<lparr>users := us', guilds := AList.update k g (guilds st)\<rparr>"
    then obtain g us' k where g: "Guild d (users st) = Inr (g, us')"
      and s: "st' = st\<lparr>users := us', guilds := AList.update k g (guilds st)\<rparr>" by blast
    from members_resolve_put [OF assms(1) Guild_resolves(2) [OF g] Guild_resolves(1) [OF g]] s
    show ?thesis by simp
  qed
qed

lemma handle_guild_update_resolves:
  assumes "members_resolve st" and "handle_guild_update d st = Inr (st', evs)"
  shows "members_resolve st'"
proof -
  from assms(2) obtain x k where x: "getitem d ''id'' = Inr x" and k: "py_int x = Inr k"
    by (auto simp: handle_guild_update_def bindE_eq_Inr)
  show ?thesis
  proof (cases "get_guild st (Some k)")
    case None
    with assms x k show ?thesis by (simp add: handle_guild_update_def)
  next
    case (Some old)
    with assms(2) x k obtain g us' where g: "Guild d (users st) = Inr (g, us')"
      and s: "st' = st\<lparr>users := us', guilds := AList.update k g (guilds st)\<rparr>"
      by (auto simp: handle_guild_update_def set_guild_def bindE_eq_Inr)
    from members_resolve_put [OF assms(1) Guild_resolves(2) [OF g] Guild_resolves(1) [OF g]] s
    show ?thesis by simp
  qed
qed

lemma handle_guild_delete_resolves:
  assumes "members_resolve st" and "handle_guild_delete d st = Inr (st', evs)"
  shows "members_resolve st'"
proof -
  from assms(2) obtain k where s: "st' = st\<lparr>guilds := AList.delete k (guilds st)\<rparr>"
    by (auto simp: handle_guild_delete_def remove_guild_def bindE_eq_Inr)
  have "set (AList.delete k (guilds st)) \<subseteq> set (guilds st)"
    by (auto simp: AList.delete_eq)
  with assms(1) s show ?thesis
    by (fastforce simp: members_resolve_guilds list_all_iff)
qed

lemma members_resolve_set_guild_same:
  "members_resolve st \<Longrightarrow> get_guild st i = Some g \<Longrightarrow> members_resolve (set_guild st i g)"
  by (simp add: set_guild_same)

lemma members_resolve_set_guild_roles:
  assumes "members_resolve st" and "get_guild st i = Some g"
  shows "members_resolve (set_guild st i (g\<lparr>guild_roles := r\<rparr>))"
proof (rule members_resolve_set_guild [OF assms])
  show "set (guild_members (g\<lparr>guild_roles := r\<rparr>)) \<subseteq> set (guild_members g)"
    by simp
qed

lemma members_resolve_set_guild_delete:
  assumes "members_resolve st" and "get_guild st i = Some g"
  shows "members_resolve
           (set_guild st i (g\<lparr>guild_members := AList.delete k (guild_members g)\<rparr>))"
proof (rule members_resolve_set_guild [OF assms])
  show "set (guild_members (g\<lparr>guild_members := AList.delete k (guild_members g)\<rparr>))
          \<subseteq> set (guild_members g)"
    by (auto simp: AList.delete_eq)
qed

lemma handle_guild_member_remove_resolves:
  assumes "members_resolve st" and "handle_guild_member_remove d st = Inr (st', evs)"
  shows "members_resolve st'"
proof (cases "get_guild st (get_snowflake d ''guild_id'')")
  case None
  with assms show ?thesis by (simp add: handle_guild_member_remove_def)
next
  case (Some g)
  with assms show ?thesis
    by (auto simp: handle_guild_member_remove_def remove_member_def bindE_eq_Inr
        intro: members_resolve_set_guild_delete)
qed

lemma handle_member_resolves:
  assumes "members_resolve st"
      and "h = handle_guild_member_add \<or> h = handle_guild_member_update"
      and "h d st = Inr (st', evs)"
  shows "members_resolve st'"
proof (cases "get_guild st (get_snowflake d ''guild_id'')")
  case None
  with assms show ?thesis
    by (auto simp: handle_guild_member_add_def handle_guild_member_update_def)
next
  case (Some g)
  from member_handlers_step [OF assms(2) Some assms(3)] obtain m where
    "st' = set_guild (st\<lparr>users := ensure_user (member_user m) (users st)\<rparr>)
                     (get_snowflake d ''guild_id'') (put_member m g)"
    by blast
  with members_resolve_step [OF assms(1) Some] show ?thesis by simp
qed

lemma handle_role_resolves:
  assumes "members_resolve st"
      and "h = handle_guild_role_create \<or> h = handle_guild_role_delete
           \<or> h = handle_guild_role_update"
      and "h d st = Inr (st', evs)"
  shows "members_resolve st'"
proof (cases "get_guild st (get_snowflake d ''guild_id'')")
  case None
  with assms show ?thesis
    by (auto simp: handle_guild_role_create_def handle_guild_role_delete_def
        handle_guild_role_update_def)
next
  case (Some g)
  show ?thesis
    using assms(2)
  proof (elim disjE)
    assume "h = handle_guild_role_create"
    with assms(1,3) Some show ?thesis
      by (auto simp: handle_guild_role_create_def add_role_def bindE_eq_Inr
          intro: members_resolve_set_guild_roles)
  next
    assume "h = handle_guild_role_delete"
    with assms(1,3) Some show ?thesis
      by (auto simp: handle_guild_role_delete_def remove_role_def Let_def
          split: option.splits
          intro: members_resolve_set_guild_roles members_resolve_set_guild_same)
  next
    assume "h = handle_guild_role_update"
    with assms(1,3) Some show ?thesis
      by (auto simp: handle_guild_role_update_def add_role_def bindE_eq_Inr
          split: option.splits intro: members_resolve_set_guild_roles)
  qed
qed

lemma process_event_resolves:
  assumes "members_resolve st" and "process_event name d st = Inr (st', evs)"
  shows "members_resolve st'"
proof (cases name)
  case (JStr s)
  with assms show ?thesis
    by (auto simp: process_event_def Let_def split: if_splits
        intro: handle_ready_resolves handle_user_update_resolves handle_guild_create_resolves
          handle_guild_update_resolves handle_guild_delete_resolves
          handle_guild_member_remove_resolves
          handle_member_resolves [where h = handle_guild_member_add]
          handle_member_resolves [where h = handle_guild_member_update]
          handle_role_resolves [where h = handle_guild_role_create]
          handle_role_resolves [where h = handle_guild_role_delete]
          handle_role_resolves [where h = handle_guild_role_update])
qed (use assms in \<open>simp_all add: process_event_def\<close>)

section \<open>Server events\<close>

lemma lower_names:
  "lower ''GUILD_CREATE'' = ''guild_create''"
  "lower ''GUILD_UPDATE'' = ''guild_update''"
  "lower ''GUILD_DELETE'' = ''guild_delete''"
  by code_simp+

lemma handle_guild_event_simps:
  "handle_guild_event (GUILD_CREATE d) st = handle_guild_create d st"
  "handle_guild_event (GUILD_UPDATE d) st = handle_guild_update d st"
  "handle_guild_event (GUILD_DELETE d) st = handle_guild_delete d st"
  by (simp_all add: handle_guild_event_def process_event_def lower_names)

lemma payload_id_Some:
  "getitem d ''id'' = Inr v \<Longrightarrow> py_int v = Inr k \<Longrightarrow> payload_id d = Some k"
  by (simp add: payload_id_def get_snowflake_def)

lemma payload_server_Some:
  assumes "Guild d us = Inr (g, us')"
  shows "payload_server d = Some g"
proof -
  from Guild_indep [OF assms, of "[]"] obtain W where "Guild d [] = Inr (g, W)" by blast
  then show ?thesis by (simp add: payload_server_def)
qed

lemma create_step:
  assumes "handle_guild_create d st = Inr (st', evs)"
  shows "map_of (guilds st') = net_effect (GUILD_CREATE d) (map_of (guilds st))"
proof -
  from assms obtain v where v: "dict_get d ''unavailable'' JNull = Inr v"
    by (auto simp: handle_guild_create_def bindE_eq_Inr)
  show ?thesis
  proof (cases "truthy v")
    case True
    with assms v show ?thesis
      by (simp add: handle_guild_create_def marked_unavailable_def)
  next
    case False
    with assms v obtain g us' x k where
      g: "Guild d (users st) = Inr (g, us')" and x: "getitem d ''id'' = Inr x"
      and k: "py_int x = Inr k"
      and st': "st' = st\<lparr>users := us', guilds := AList.update k g (guilds st)\<rparr>"
      by (auto simp: handle_guild_create_def add_guild_def bindE_eq_Inr)
    from False v have "\<not> marked_unavailable d" by (simp add: marked_unavailable_def)
    with payload_id_Some [OF x k] payload_server_Some [OF g] st' show ?thesis
      by (simp add: AList.update_conv')
  qed
qed

lemma update_step:
  assumes "handle_guild_update d st = Inr (st', evs)"
  shows "map_of (guilds st') = net_effect (GUILD_UPDATE d) (map_of (guilds st))"
proof -
  from assms obtain x k where x: "getitem d ''id'' = Inr x" and k: "py_int x = Inr k"
    by (auto simp: handle_guild_update_def bindE_eq_Inr)
  note i = payload_id_Some [OF x k]
  show ?thesis
  proof (cases "map_of (guilds st) k")
    case None
    with assms x k have "st' = st"
      by (simp add: handle_guild_update_def get_guild_def)
    with None i show ?thesis by (simp split: option.splits)
  next
    case (Some old)
    with assms x k obtain g us' where
      g: "Guild d (users st) = Inr (g, us')"
      and st': "st' = set_guild (st\<lparr>users := us'\<rparr>) (Some k) g"
      by (auto simp: handle_guild_update_def get_guild_def bindE_eq_Inr)
    with Some i payload_server_Some [OF g] show ?thesis
      by (simp add: set_guild_def AList.update_conv')
  qed
qed

lemma delete_step:
  assumes "handle_guild_delete d st = Inr (st', evs)"
  shows "map_of (guilds st') = net_effect (GUILD_DELETE d) (map_of (guilds st))"
proof -
  from assms obtain x k where x: "getitem d ''id'' = Inr x" and k: "py_int x = Inr k"
    and st': "st' = st\<lparr>guilds := AList.delete k (guilds st)\<rparr>"
    by (auto simp: handle_guild_delete_def remove_guild_def bindE_eq_Inr)
  with payload_id_Some [OF x k] show ?thesis
    by (simp add: AList.delete_conv')
qed

lemma guild_event_step:
  assumes "handle_guild_event e st = Inr (st', evs)"
  shows "map_of (guilds st') = net_effect e (map_of (guilds st))"
  using assms
  by (cases e) (simp_all only: handle_guild_event_simps create_step update_step delete_step)

lemma run_events_net_effect:
  "run_events es st = Inr (st', evs)
     \<Longrightarrow> map_of (guilds st') = foldl (\<lambda>m e. net_effect e m) (map_of (guilds st)) es"
proof (induction es arbitrary: st evs)
  case Nil
  then show ?case by simp
next
  case (Cons e es)
  from Cons.prems obtain s1 e1 e2 where
    1: "handle_guild_event e st = Inr (s1, e1)" and 2: "run_events es s1 = Inr (st', e2)"
    by (auto simp: bindE_eq_Inr)
  from Cons.IH [OF 2] guild_event_step [OF 1] show ?case by simp
qed

lemma create_replay:
  assumes "handle_guild_create d st = Inr (s1, e1)"
  shows "handle_guild_create d s1 = Inr (s1, e1)"
proof -
  from assms obtain v where v: "dict_get d ''unavailable'' JNull = Inr v"
    by (auto simp: handle_guild_create_def bindE_eq_Inr)
  show ?thesis
  proof (cases "truthy v")
    case True
    with assms v show ?thesis by (simp add: handle_guild_create_def)
  next
    case False
    with assms v obtain g us' x k where
      g: "Guild d (users st) = Inr (g, us')" and x: "getitem d ''id'' = Inr x"
      and k: "py_int x = Inr k"
      and s1: "s1 = st\<lparr>users := us', guilds := AList.update k g (guilds st)\<rparr>"
      and e1: "e1 = (if v = JBool False then [Guild_available g] else []) @ [Guild_join g]"
      by (auto simp: handle_guild_create_def add_guild_def bindE_eq_Inr)
    from Guild_replay [OF g] s1 have "Guild d (users s1) = Inr (g, us')" by simp
    with x k s1 have "add_guild d s1 = Inr (g, s1)" by (simp add: add_guild_def)
    with v False e1 show ?thesis by (simp add: handle_guild_create_def)
  qed
qed

text \<open>
  Claim C5.  After a run of server create, update and delete events that no handler has
  left by an exception, the server mapping is the net effect of the events applied in
  order; and a create that is handled twice leaves the very state that it leaves when
  handled once (with its notifications dispatched a second time).
\<close>

theorem guild_events_net_effect:
  assumes "run_events es st = Inr (st', evs)"
  shows "map_of (guilds st') = foldl (\<lambda>m e. net_effect e m) (map_of (guilds st)) es
       \<and> (\<forall>d s1 e1. run_events [GUILD_CREATE d] st = Inr (s1, e1) \<longrightarrow>
             run_events [GUILD_CREATE d, GUILD_CREATE d] st = Inr (s1, e1 @ e1))"
proof (intro conjI allI impI)
  show "map_of (guilds st') = foldl (\<lambda>m e. net_effect e m) (map_of (guilds st)) es"
    using assms by (rule run_events_net_effect)
next
  fix d s1 e1
  assume "run_events [GUILD_CREATE d] st = Inr (s1, e1)"
  then have 1: "handle_guild_create d st = Inr (s1, e1)"
    by (auto simp: bindE_eq_Inr handle_guild_event_simps)
  from create_replay [OF 1] 1
  show "run_events [GUILD_CREATE d, GUILD_CREATE d] st = Inr (s1, e1 @ e1)"
    by (simp add: handle_guild_event_simps)
qed

theorem guild_events_net_effect_witness:
  "run_events sample_events State_init = Inr (after_events, events_dispatched)
   \<and> map (\<lambda>x. (fst x, guild_name (snd x))) (guilds after_events) = [(10, JStr ''g2'')]
   \<and> length events_dispatched = 5
   \<and> map_of (guilds after_events) = foldl (\<lambda>m e. net_effect e m) Map.empty sample_events
   \<and> run_events [GUILD_CREATE sample_guild] State_init
       = Inr (sample_state, [Guild_join sample_cached_guild])
   \<and> run_events [GUILD_CREATE sample_guild, GUILD_CREATE sample_guild] State_init
       = Inr (sample_state, [Guild_join sample_cached_guild, Guild_join sample_cached_guild])"
proof -
  have r: "run_events sample_events State_init = Inr (after_events, events_dispatched)"
    by code_simp
  have g: "map (\<lambda>x. (fst x, guild_name (snd x))) (guilds after_events) = [(10, JStr ''g2'')]"
    by code_simp
  have l: "length events_dispatched = 5" by code_simp
  have e: "guilds State_init = []" by code_simp
  have o: "run_events [GUILD_CREATE sample_guild] State_init
             = Inr (sample_state, [Guild_join sample_cached_guild])"
    by code_simp
  from guild_events_net_effect [OF r] e o
  have "map_of (guilds after_events) = foldl (\<lambda>m e. net_effect e m) Map.empty sample_events"
    and "run_events [GUILD_CREATE sample_guild, GUILD_CREATE sample_guild] State_init
       = Inr (sample_state, [Guild_join sample_cached_guild, Guild_join sample_cached_guild])"
    by auto
  with r g l o show ?thesis by blast
qed

section \<open>Role events and the role listing\<close>

text \<open>
  Claim C6.  \<open>GUILD_ROLE_UPDATE\<close> for a cached guild and a role id that is not among
  the guild's roles: the handler raises \<open>TypeError\<close> (it gives \<open>None\<close> to
  \<open>_add_role\<close>), where the claim has it insert the role and dispatch.
\<close>

theorem role_update_absent_raises:
  assumes "get_guild st (get_snowflake data ''guild_id'') = Some g"
      and "getitem data ''role'' = Inr rd" and "getitem rd ''id'' = Inr v" and "py_int v = Inr k"
      and "get_role g k = None"
  shows "handle_guild_role_update data st = Inl TypeError"
  using assms by (simp add: handle_guild_role_update_def add_role_def Role_def)

theorem role_update_absent_witness:
  "get_role sample_cached_guild 55 = None
   \<and> handle_guild_role_update (role_update_sample ''55'') sample_state = Inl TypeError"
proof -
  have c: "get_guild sample_state (get_snowflake (role_update_sample ''55'') ''guild_id'')
             = Some sample_cached_guild"
    by code_simp
  have r: "getitem (role_update_sample ''55'') ''role'' = Inr (sample_role ''55'' 4)"
    by code_simp
  have i: "getitem (sample_role ''55'' 4) ''id'' = Inr (JStr ''55'')"
    by code_simp
  have k: "py_int (JStr ''55'') = Inr 55"
    by code_simp
  have a: "get_role sample_cached_guild 55 = None"
    by code_simp
  show ?thesis
    using role_update_absent_raises [OF c r i k a] a by simp
qed

lemma list_remove_first:
  "list_remove xs v =
     (case xs of
        [] \<Rightarrow> Inl ValueError
      | x # rest \<Rightarrow> if (\<exists>y. v = Some y \<and> fst x = fst y) then Inr rest else Inl TypeError)"
  by (cases xs; cases v) (simp_all add: DiscordModel_eq_def)

text \<open>
  Claim C7.  What the \<open>roles\<close> property returns: when the first role the guild
  received is its default role, the other roles in the order they were received, followed
  by the default role; \<open>TypeError\<close> when another role was received first;
  \<open>ValueError\<close> for a guild with no role.  The \<open>position\<close> fields are not read, so
  the listing is not sorted by them.
\<close>

theorem roles_insertion_order:
  "roles g =
     (case guild_roles g of
        [] \<Rightarrow> Inl ValueError
      | (k, r) # rest \<Rightarrow>
          if k = guild_id g then Inr (map (\<lambda>x. Some (snd x)) rest @ [Some r])
          else Inl TypeError)"
proof (cases "guild_roles g")
  case Nil
  then show ?thesis by (simp add: roles_def list_remove_first)
next
  case (Cons x rest)
  obtain k r where x: "x = (k, r)" by (cases x)
  show ?thesis
    using Cons x
    by (auto simp: roles_def list_remove_first default_role_def get_role_def Let_def)
qed

theorem roles_insertion_order_witness:
  "map (\<lambda>x. (fst x, position (snd x))) (guild_roles sample_cached_guild)
     = [(10, 0), (11, 1), (12, 3), (13, 2)]
   \<and> map_sum id (map (map_option (\<lambda>r. (role_id r, position r)))) (roles sample_cached_guild)
     = Inr [Some (11, 1), Some (12, 3), Some (13, 2), Some (10, 0)]
   \<and> map fst (guild_roles (fst (projr (Guild late_default_guild [])))) = [11, 10]
   \<and> roles (fst (projr (Guild late_default_guild []))) = Inl TypeError"
proof -
  have 1: "map (\<lambda>x. (fst x, position (snd x))) (guild_roles sample_cached_guild)
     = [(10, 0), (11, 1), (12, 3), (13, 2)]"
    by code_simp
  have "map_sum id (map (map_option (\<lambda>r. (role_id r, position r))))
          (case guild_roles sample_cached_guild of
             [] \<Rightarrow> Inl ValueError
           | (k, r) # rest \<Rightarrow>
               if k = guild_id sample_cached_guild
               then Inr (map (\<lambda>x. Some (snd x)) rest @ [Some r])
               else Inl TypeError)
        = Inr [Some (11, 1), Some (12, 3), Some (13, 2), Some (10, 0)]"
    by code_simp
  then have 2: "map_sum id (map (map_option (\<lambda>r. (role_id r, position r))))
                  (roles sample_cached_guild)
        = Inr [Some (11, 1), Some (12, 3), Some (13, 2), Some (10, 0)]"
    using roles_insertion_order [of sample_cached_guild] by simp
  have 3: "map fst (guild_roles (fst (projr (Guild late_default_guild [])))) = [11, 10]"
    by code_simp
  have "(case guild_roles (fst (projr (Guild late_default_guild []))) of
             [] \<Rightarrow> Inl ValueError
           | (k, r) # rest \<Rightarrow>
               if k = guild_id (fst (projr (Guild late_default_guild [])))
               then Inr (map (\<lambda>x. Some (snd x)) rest @ [Some r])
               else Inl TypeError) = Inl TypeError"
    by code_simp
  then have 4: "roles (fst (projr (Guild late_default_guild []))) = Inl TypeError"
    using roles_insertion_order [of "fst (projr (Guild late_default_guild []))"] by simp
  from 1 2 3 4 show ?thesis by blast
qed

section \<open>The gateway\<close>

lemma lift_Pair [simp]: "lift r = Pair r"
  by (rule ext) (simp add: lift_def)

lemma bindW_Pair_Inr [simp]: "bindW (Pair (Inr x)) f = f x"
  by (rule ext) (simp add: bindW_def)

lemma bindW_Pair_Inl [simp]: "bindW (Pair (Inl e)) f = Pair (Inl e)"
  by (rule ext) (simp add: bindW_def)

lemma bindW_receive_Text [simp]:
  "socket (ws w) = Some s \<Longrightarrow> bindW (receive_step (Text v)) f w = f v w"
  by (simp add: bindW_def receive_step_def receive_json_def)

lemma bindW_set_sequence [simp]:
  "bindW (set_sequence v) f w = f () (w\<lparr>ws := (ws w)\<lparr>sequence := v\<rparr>\<rparr>)"
  by (simp add: bindW_def set_sequence_def)

lemma other_op_ignored:
  assumes "socket (ws w) = Some s"
      and "getitem msg ''op'' = Inr op" and "getitem msg ''d'' = Inr d"
      and "\<not> eq_int op 10" and "\<not> eq_int op 1" and "\<not> eq_int op 0" and "\<not> eq_int op 7"
  shows "\<exists>w'. handle_message (Text msg) w = (Inr (), w')
           \<and> state w' = state w \<and> trace w' = trace w
           \<and> socket (ws w') = socket (ws w) \<and> session_id (ws w') = session_id (ws w)
           \<and> heartbeat (ws w') = heartbeat (ws w)"
proof -
  from getitem_dict_get [OF assms(2)] obtain x where x: "dict_get msg ''s'' JNull = Inr x"
    by blast
  show ?thesis
    using assms x
    by (cases "truthy x")
       (simp_all add: handle_message_def bindW_def receive_step_def receive_json_def
          set_sequence_def)
qed

subsection \<open>No resume frame\<close>

lemma keeps_Pair [simp]: "keeps_resumes (Pair r)"
  by (simp add: keeps_resumes_def)

lemma keeps_bindW:
  assumes "keeps_resumes m" and "\<And>x. keeps_resumes (f x)"
  shows "keeps_resumes (bindW m f)"
  unfolding keeps_resumes_def
proof
  fix w
  obtain r w' where mw: "m w = (r, w')" by (cases "m w")
  with assms(1) have a: "filter is_resume (trace w') = filter is_resume (trace w)"
    by (auto simp: keeps_resumes_def dest: spec [of _ w])
  show "filter is_resume (trace (snd (bindW m f w))) = filter is_resume (trace w)"
  proof (cases r)
    case (Inl e)
    with mw a show ?thesis by (simp add: bindW_def)
  next
    case (Inr x)
    from assms(2) [of x] have "filter is_resume (trace (snd (f x w'))) = filter is_resume (trace w')"
      by (simp add: keeps_resumes_def)
    with Inr mw a show ?thesis by (simp add: bindW_def)
  qed
qed

lemma keeps_if:
  "keeps_resumes a \<Longrightarrow> keeps_resumes b \<Longrightarrow> keeps_resumes (if c then a else b)"
  by simp

lemma keeps_send_heartbeat: "keeps_resumes (\<lambda>w. send_json (heartbeat_frame (ws w)) w)"
  by (simp add: keeps_resumes_def send_json_def heartbeat_frame_def is_resume_def
      split: option.splits)

lemma keeps_identify: "keeps_resumes identify"
  by (simp add: keeps_resumes_def identify_def send_json_def identify_frame_def is_resume_def
      split: option.splits)

lemma keeps_set_interval: "keeps_resumes (set_interval q)"
  by (simp add: keeps_resumes_def set_interval_def)

lemma keeps_set_sequence: "keeps_resumes (set_sequence v)"
  by (simp add: keeps_resumes_def set_sequence_def)

lemma keeps_set_session_id: "keeps_resumes (set_session_id v)"
  by (simp add: keeps_resumes_def set_session_id_def)

lemma keeps_heartbeat_start: "keeps_resumes heartbeat_start"
  by (simp add: keeps_resumes_def heartbeat_start_def)

lemma keeps_run_process_event: "keeps_resumes (run_process_event name data)"
  by (simp add: keeps_resumes_def run_process_event_def is_resume_def
      split: sum.splits prod.splits)

lemma keeps_receive: "keeps_resumes (receive_step m)"
  by (simp add: keeps_resumes_def receive_step_def split: prod.splits)

lemmas keeps_intros =
  keeps_bindW keeps_if keeps_Pair keeps_send_heartbeat keeps_identify keeps_set_interval
  keeps_set_sequence keeps_set_session_id keeps_heartbeat_start keeps_run_process_event
  keeps_receive

lemma keeps_handle_message: "keeps_resumes (handle_message m)"
  unfolding handle_message_def lift_Pair by (intro keeps_intros)

lemma handle_events_keeps:
  "filter is_resume (trace (snd (handle_events frames w))) = filter is_resume (trace w)"
proof (induction frames arbitrary: w)
  case Nil
  show ?case by simp
next
  case (Cons m ms)
  obtain r w' where h: "handle_message m w = (r, w')" by (cases "handle_message m w")
  from keeps_handle_message [of m] have
    k: "filter is_resume (trace w') = filter is_resume (trace w)"
    using h by (auto simp: keeps_resumes_def dest: spec [of _ w])
  show ?case
  proof (cases r)
    case (Inl e)
    with h k show ?thesis by simp
  next
    case (Inr u)
    with h k Cons.IH [of w'] show ?thesis by simp
  qed
qed

lemma connect_raises:
  "connect tok ex frames w =
     (Inl NameError, w\<lparr>state := (state w)\<lparr>http := (http (state w))\<lparr>token := Some tok\<rparr>\<rparr>\<rparr>)"
  by (simp add: connect_def start_def get_gateway_def request_def get_headers_def bindW_def
      connect_except_def)

lemma hello_message:
  assumes "socket (ws w) = Some s"
  shows "fst (handle_message (Text (hello_frame n)) w)
           = (if started (heartbeat (ws w)) then Inl RuntimeError else Inr ())"
    and "trace (snd (handle_message (Text (hello_frame n)) w))
           = trace w @ Send (heartbeat_frame (ws w))
               # (if started (heartbeat (ws w)) then [] else [Send (identify_frame w)])"
    and "interval (heartbeat (ws (snd (handle_message (Text (hello_frame n)) w))))
           = Some (of_int n / 1000)"
    and "state (snd (handle_message (Text (hello_frame n)) w)) = state w"
  using assms
  by (simp_all add: handle_message_def hello_frame_def bindW_def set_interval_def send_json_def
      heartbeat_start_def identify_def heartbeat_frame_def identify_frame_def
      receive_step_def receive_json_def)

lemma hello_socket:
  "socket (ws (snd (handle_message (Text (hello_frame n)) w))) = socket (ws w)"
  by (simp add: handle_message_def hello_frame_def bindW_def set_interval_def send_json_def
      heartbeat_start_def identify_def receive_step_def receive_json_def split: option.splits)

text \<open>
  Claim C2.  No run of the read loop sends a resume frame, whatever \<open>session_id\<close> and
  \<open>sequence\<close> the websocket holds; \<open>connect\<close> raises \<open>NameError\<close> before a
  socket is opened; its \<open>except\<close> clause for a reconnect raises \<open>NameError\<close> and
  sends nothing; and a Hello on an open socket is answered by a heartbeat followed by an
  identify frame, or, when the heartbeat thread was started before, by a heartbeat and
  \<open>RuntimeError\<close>.
\<close>

theorem resume_never_sent:
  "filter is_resume (trace (snd (handle_events frames w))) = filter is_resume (trace w)
   \<and> connect tok ex frames w
       = (Inl NameError, w\<lparr>state := (state w)\<lparr>http := (http (state w))\<lparr>token := Some tok\<rparr>\<rparr>\<rparr>)
   \<and> connect_except (Inl ReconnectDiscordWebsocket, w) = (Inl NameError, w)
   \<and> (\<forall>s. socket (ws w) = Some s \<longrightarrow> \<not> closed s \<longrightarrow>
         fst (handle_events [Text (hello_frame n)] w)
           = (if started (heartbeat (ws w)) then Inl RuntimeError else Inr Pending)
         \<and> trace (snd (handle_events [Text (hello_frame n)] w))
           = trace w @ Send (heartbeat_frame (ws w))
               # (if started (heartbeat (ws w)) then [] else [Send (identify_frame w)]))"
proof (intro conjI allI impI)
  show "filter is_resume (trace (snd (handle_events frames w))) = filter is_resume (trace w)"
    by (rule handle_events_keeps)
  show "connect tok ex frames w
       = (Inl NameError, w\<lparr>state := (state w)\<lparr>http := (http (state w))\<lparr>token := Some tok\<rparr>\<rparr>\<rparr>)"
    by (rule connect_raises)
  show "connect_except (Inl ReconnectDiscordWebsocket, w) = (Inl NameError, w)"
    by (simp add: connect_except_def)
next
  fix s
  assume s: "socket (ws w) = Some s" and o: "\<not> closed s"
  let ?r = "handle_message (Text (hello_frame n)) w"
  have c: "\<not> is_closed (ws w)" using s o by (simp add: is_closed_def)
  have c': "\<not> is_closed (ws (snd ?r))"
    using s o hello_socket [of n w] by (simp add: is_closed_def)
  show "fst (handle_events [Text (hello_frame n)] w)
           = (if started (heartbeat (ws w)) then Inl RuntimeError else Inr Pending)"
    using c c' hello_message(1) [OF s, of n]
    by (cases ?r) (auto split: sum.splits)
  show "trace (snd (handle_events [Text (hello_frame n)] w))
           = trace w @ Send (heartbeat_frame (ws w))
               # (if started (heartbeat (ws w)) then [] else [Send (identify_frame w)])"
    using c c' hello_message(2) [OF s, of n]
    by (cases ?r) (auto split: sum.splits)
qed

theorem resume_never_sent_witness:
  "fst (handle_events [Text (hello_frame 41250)] resumable_world) = Inl RuntimeError
   \<and> trace (snd (handle_events [Text (hello_frame 41250)] resumable_world))
       = [Send (JDict [(''op'', JInt 1), (''d'', JInt 5)])]
   \<and> session_id (ws resumable_world) = JStr ''abc'' \<and> sequence (ws resumable_world) = JInt 5
   \<and> handle_events [Text (hello_frame 41250), Text ready_frame, Text reconnect_frame] sample_world
       = (Inl ReconnectDiscordWebsocket,
          snd (handle_events [Text (hello_frame 41250), Text ready_frame] sample_world))
   \<and> fst (connect_except
            (handle_events [Text (hello_frame 41250), Text ready_frame, Text reconnect_frame]
               sample_world)) = Inl NameError
   \<and> filter is_resume
        (trace (snd (handle_events
                       [Text (hello_frame 41250), Text ready_frame, Text reconnect_frame]
                       sample_world))) = []
   \<and> fst (connect ''token'' (Inr (JDict [(''url'', JStr ''wss://gateway.discord.gg/'')]))
            [Text (hello_frame 41250)] resumable_world) = Inl NameError"
proof -
  note t = resume_never_sent
    [of "[Text (hello_frame 41250), Text ready_frame, Text reconnect_frame]" sample_world]
  note r = resume_never_sent [of _ resumable_world _ _ 41250]
  have s: "socket (ws resumable_world) = Some \<lparr> closed = False \<rparr>" by code_simp
  have st: "started (heartbeat (ws resumable_world))" by code_simp
  have hb: "heartbeat_frame (ws resumable_world) = JDict [(''op'', JInt 1), (''d'', JInt 5)]"
    by code_simp
  have e: "trace resumable_world = []" "trace sample_world = []" by code_simp+
  have 1: "fst (handle_events [Text (hello_frame 41250)] resumable_world) = Inl RuntimeError"
    using r s st by simp
  have 2: "trace (snd (handle_events [Text (hello_frame 41250)] resumable_world))
       = [Send (JDict [(''op'', JInt 1), (''d'', JInt 5)])]"
    using r s st hb e by simp
  have 3: "session_id (ws resumable_world) = JStr ''abc''" "sequence (ws resumable_world) = JInt 5"
    by code_simp+
  have 4: "handle_events [Text (hello_frame 41250), Text ready_frame, Text reconnect_frame] sample_world
       = (Inl ReconnectDiscordWebsocket,
          snd (handle_events [Text (hello_frame 41250), Text ready_frame] sample_world))"
    by code_simp
  have 5: "fst (connect_except
            (handle_events [Text (hello_frame 41250), Text ready_frame, Text reconnect_frame]
               sample_world)) = Inl NameError"
    unfolding 4 using resume_never_sent by simp
  have 6: "filter is_resume
        (trace (snd (handle_events
                       [Text (hello_frame 41250), Text ready_frame, Text reconnect_frame]
                       sample_world))) = []"
    using t e by simp
  have 7: "fst (connect ''token'' (Inr (JDict [(''url'', JStr ''wss://gateway.discord.gg/'')]))
            [Text (hello_frame 41250)] resumable_world) = Inl NameError"
    using r by simp
  from 1 2 3 4 5 6 7 show ?thesis by blast
qed

subsection \<open>Heartbeats\<close>

lemma handler_round_errors:
  "fst (handler_round w) \<noteq> Inl ReconnectDiscordWebsocket"
  by (simp add: handler_round_def bindW_def send_json_def sleep_def
      split: option.splits prod.splits sum.splits)

lemma handler_never_reconnects: "fst (handler n w) \<noteq> Inl ReconnectDiscordWebsocket"
proof (induction n arbitrary: w)
  case 0
  show ?case by simp
next
  case (Suc n)
  obtain r w' where h: "handler_round w = (r, w')" by (cases "handler_round w")
  show ?case
  proof (cases r)
    case (Inl e)
    with h handler_round_errors [of w] show ?thesis by simp
  next
    case (Inr u)
    with h Suc.IH [of w'] show ?thesis by simp
  qed
qed

lemma handler_round_open:
  assumes "socket (ws w) = Some s" and "interval (heartbeat (ws w)) = Some t" and "0 \<le> t"
  shows "handler_round w = (Inr (), w\<lparr>trace := trace w @ [Send (heartbeat_frame (ws w)), Sleep t]\<rparr>)"
  using assms by (simp add: handler_round_def bindW_def send_json_def sleep_def)

lemma hello_general:
  assumes "socket (ws w) = Some s"
      and "getitem msg ''op'' = Inr op" and "eq_int op 10" and "getitem msg ''d'' = Inr d"
      and "getitem d ''heartbeat_interval'' = Inr v" and "div_1000 v = Inr q"
  shows "\<exists>r w'. handle_message (Text msg) w = (r, w')
           \<and> interval (heartbeat (ws w')) = Some q
           \<and> trace w' = trace w @ Send (heartbeat_frame (ws w'))
                  # (if started (heartbeat (ws w)) then [] else [Send (identify_frame w)])
           \<and> r = (if started (heartbeat (ws w)) then Inl RuntimeError else Inr ())"
proof -
  from getitem_dict_get [OF assms(2)] obtain x where x: "dict_get msg ''s'' JNull = Inr x"
    by blast
  show ?thesis
    using assms x
    by (cases "truthy x")
       (simp_all add: handle_message_def bindW_def set_interval_def send_json_def
          heartbeat_start_def identify_def heartbeat_frame_def identify_frame_def
          set_sequence_def receive_step_def receive_json_def)
qed

text \<open>
  Claim C3, as amended.  On a Hello that carries a numeric interval, the read loop stores
  the interval and sends exactly one heartbeat frame with the sequence it knows, then the
  identify frame (or raises \<open>RuntimeError\<close> when the heartbeat thread was started
  before).  Every round of the heartbeat thread on an open socket sends a heartbeat frame
  and sleeps for the interval.  No acknowledgement is kept: a round never raises the
  reconnect exception, and a heartbeat acknowledgement (opcode 11) changes neither the
  trace nor the heartbeat handler nor the socket.
\<close>

theorem heartbeat_without_ack:
  assumes sock: "socket (ws w) = Some s"
      and hello: "getitem msg ''op'' = Inr op" "eq_int op 10" "getitem msg ''d'' = Inr d"
                 "getitem d ''heartbeat_interval'' = Inr v" "div_1000 v = Inr q"
  shows "(\<exists>r w'. handle_message (Text msg) w = (r, w')
            \<and> interval (heartbeat (ws w')) = Some q
            \<and> trace w' = trace w @ Send (heartbeat_frame (ws w'))
                   # (if started (heartbeat (ws w)) then [] else [Send (identify_frame w)])
            \<and> r = (if started (heartbeat (ws w)) then Inl RuntimeError else Inr ()))
       \<and> (\<forall>n t. \<not> closed s \<longrightarrow> interval (heartbeat (ws w)) = Some t \<longrightarrow> 0 \<le> t \<longrightarrow>
             handler (Suc n) w
               = handler n (w\<lparr>trace := trace w @ [Send (heartbeat_frame (ws w)), Sleep t]\<rparr>))
       \<and> (\<forall>n. fst (handler n w) \<noteq> Inl ReconnectDiscordWebsocket)
       \<and> (\<forall>ack a x. getitem ack ''op'' = Inr a \<longrightarrow> eq_int a 11 \<longrightarrow> getitem ack ''d'' = Inr x \<longrightarrow>
             (\<exists>w'. handle_message (Text ack) w = (Inr (), w')
                 \<and> trace w' = trace w \<and> heartbeat (ws w') = heartbeat (ws w)
                 \<and> socket (ws w') = socket (ws w)))"
proof (intro conjI allI impI)
  show "\<exists>r w'. handle_message (Text msg) w = (r, w')
            \<and> interval (heartbeat (ws w')) = Some q
            \<and> trace w' = trace w @ Send (heartbeat_frame (ws w'))
                   # (if started (heartbeat (ws w)) then [] else [Send (identify_frame w)])
            \<and> r = (if started (heartbeat (ws w)) then Inl RuntimeError else Inr ())"
    using sock hello by (rule hello_general)
next
  fix n t
  assume "\<not> closed s" and "interval (heartbeat (ws w)) = Some t" and "0 \<le> t"
  then show "handler (Suc n) w
               = handler n (w\<lparr>trace := trace w @ [Send (heartbeat_frame (ws w)), Sleep t]\<rparr>)"
    using sock by (simp add: handler_round_open is_closed_def)
next
  fix n
  show "fst (handler n w) \<noteq> Inl ReconnectDiscordWebsocket"
    by (rule handler_never_reconnects)
next
  fix ack a x
  assume a: "getitem ack ''op'' = Inr a" "eq_int a 11" "getitem ack ''d'' = Inr x"
  from a(2) have "\<not> eq_int a 10" "\<not> eq_int a 1" "\<not> eq_int a 0" "\<not> eq_int a 7"
    by (simp_all add: eq_int_distinct)
  from other_op_ignored [OF sock a(1) a(3) this]
  show "\<exists>w'. handle_message (Text ack) w = (Inr (), w')
                 \<and> trace w' = trace w \<and> heartbeat (ws w') = heartbeat (ws w)
                 \<and> socket (ws w') = socket (ws w)"
    by blast
qed

theorem heartbeat_without_ack_witness:
  "(\<exists>r w'. handle_message (Text (hello_frame 41250)) sample_world = (r, w')
        \<and> interval (heartbeat (ws w')) = Some (165 / 4)
        \<and> trace w' = [Send (heartbeat_frame (ws w')), Send (identify_frame sample_world)]
        \<and> r = Inr ())
   \<and> handler (Suc 1) after_hello
       = handler 1 (after_hello\<lparr>trace := trace after_hello
                      @ [Send (heartbeat_frame (ws after_hello)), Sleep (165 / 4)]\<rparr>)
   \<and> fst (handler 3 after_hello) \<noteq> Inl ReconnectDiscordWebsocket
   \<and> (\<exists>w'. handle_message (Text heartbeat_ack_frame) after_hello = (Inr (), w')
          \<and> trace w' = trace after_hello
          \<and> heartbeat (ws w') = heartbeat (ws after_hello))"
proof -
  have s: "socket (ws sample_world) = Some \<lparr> closed = False \<rparr>" by code_simp
  have s': "socket (ws after_hello) = Some \<lparr> closed = False \<rparr>" by code_simp
  have o: "getitem (hello_frame 41250) ''op'' = Inr (JInt 10)" by code_simp
  have e: "eq_int (JInt 10) 10" by simp
  have d: "getitem (hello_frame 41250) ''d'' = Inr (JDict [(''heartbeat_interval'', JInt 41250)])"
    by code_simp
  have i: "getitem (JDict [(''heartbeat_interval'', JInt 41250)]) ''heartbeat_interval''
             = Inr (JInt 41250)"
    by code_simp
  have q: "div_1000 (JInt 41250) = Inr (165 / 4)" by simp
  have n: "\<not> started (heartbeat (ws sample_world))" "trace sample_world = []" by code_simp+
  have t: "interval (heartbeat (ws after_hello)) = Some (165 / 4)" by code_simp
  have a: "getitem heartbeat_ack_frame ''op'' = Inr (JInt 11)"
          "getitem heartbeat_ack_frame ''d'' = Inr JNull"
    by code_simp+
  have a': "eq_int (JInt 11) 11" by simp
  from heartbeat_without_ack [OF s o e d i q] n
  have 1: "\<exists>r w'. handle_message (Text (hello_frame 41250)) sample_world = (r, w')
        \<and> interval (heartbeat (ws w')) = Some (165 / 4)
        \<and> trace w' = [Send (heartbeat_frame (ws w')), Send (identify_frame sample_world)]
        \<and> r = Inr ()"
    by simp
  note h = heartbeat_without_ack [OF s' o e d i q]
  have op: "\<not> closed \<lparr> closed = False \<rparr>" by simp
  have p: "(0::rat) \<le> 165 / 4" by simp
  from h op t p have 2: "handler (Suc 1) after_hello
       = handler 1 (after_hello\<lparr>trace := trace after_hello
                      @ [Send (heartbeat_frame (ws after_hello)), Sleep (165 / 4)]\<rparr>)"
    by blast
  from h have 3: "fst (handler 3 after_hello) \<noteq> Inl ReconnectDiscordWebsocket"
    by blast
  from h a a' have 4: "\<exists>w'. handle_message (Text heartbeat_ack_frame) after_hello = (Inr (), w')
          \<and> trace w' = trace after_hello
          \<and> heartbeat (ws w') = heartbeat (ws after_hello)"
    by blast
  from 1 2 3 4 show ?thesis by blast
qed

text \<open>
  The claim as the specification states it fails on \<open>sample_world\<close>: after the Hello,
  with no acknowledgement ever received, two rounds of the heartbeat thread send two
  heartbeats and the loop goes on.
\<close>

theorem heartbeat_without_ack_counterexample:
  "handle_events [Text (hello_frame 41250)] sample_world = (Inr Pending, after_hello)
   \<and> trace after_hello
       = [Send (JDict [(''op'', JInt 1), (''d'', JNull)]), Send (identify_frame sample_world)]
   \<and> handler 2 after_hello
       = (Inr Pending,
          after_hello\<lparr>trace := trace after_hello
             @ [Send (JDict [(''op'', JInt 1), (''d'', JNull)]), Sleep (165 / 4),
                Send (JDict [(''op'', JInt 1), (''d'', JNull)]), Sleep (165 / 4)]\<rparr>)"
  by code_simp

subsection \<open>Invalid session\<close>

text \<open>
  Claim C4, as amended.  A frame with opcode 9 that the socket delivers is ignored by the
  read loop: the state, the trace, the socket, the session id and the heartbeat handler
  stay as they are (only a sequence number carried by the frame is stored).
\<close>

theorem invalid_session_ignored:
  assumes "socket (ws w) = Some s"
      and "getitem msg ''op'' = Inr op" and "eq_int op 9" and "getitem msg ''d'' = Inr d"
  shows "\<exists>w'. handle_message (Text msg) w = (Inr (), w')
           \<and> state w' = state w \<and> trace w' = trace w
           \<and> socket (ws w') = socket (ws w) \<and> session_id (ws w') = session_id (ws w)
           \<and> heartbeat (ws w') = heartbeat (ws w)"
proof -
  from assms(3) have "\<not> eq_int op 10" "\<not> eq_int op 1" "\<not> eq_int op 0" "\<not> eq_int op 7"
    by (simp_all add: eq_int_distinct)
  from other_op_ignored [OF assms(1) assms(2) assms(4) this] show ?thesis .
qed

theorem invalid_session_ignored_witness:
  "\<exists>w'. handle_message (Text invalid_session_frame) cached_world = (Inr (), w')
       \<and> state w' = sample_state \<and> trace w' = []"
proof -
  have o: "getitem invalid_session_frame ''op'' = Inr (JInt 9)" by code_simp
  have e: "eq_int (JInt 9) 9" by simp
  have d: "getitem invalid_session_frame ''d'' = Inr (JBool False)" by code_simp
  have k: "socket (ws cached_world) = Some \<lparr> closed = False \<rparr>" by code_simp
  have s: "state cached_world = sample_state" "trace cached_world = []" by code_simp+
  from invalid_session_ignored [OF k o e d] s show ?thesis by auto
qed

text \<open>
  The claim as the specification states it fails on \<open>cached_world\<close>: after the frame
  \<open>{op: 9, d: false}\<close> both mappings still hold their entries, and nothing was sent.
\<close>

theorem invalid_session_ignored_counterexample:
  "handle_message (Text invalid_session_frame) cached_world = (Inr (), cached_world)
   \<and> users (state cached_world) \<noteq> [] \<and> guilds (state cached_world) \<noteq> []
   \<and> trace cached_world = []"
  by code_simp

subsection \<open>Binary frames\<close>

text \<open>
  Claim C9.  \<open>receive_json\<close> never changes the websocket, so nothing is added to the
  buffer; for a binary message it returns \<open>None\<close> or raises (\<open>NameError\<close> after
  the trailer, \<open>AttributeError\<close> without a socket), never a decoded message; and the
  read loop raises on every binary message.
\<close>

theorem receive_json_keeps_nothing:
  "snd (receive_json m x) = x
   \<and> fst (receive_json (Bytes d) x) \<in> {Inr JNull, Inl NameError, Inl AttributeError}
   \<and> fst (handle_message (Bytes d) w) \<in> {Inl TypeError, Inl NameError, Inl AttributeError}
   \<and> ws (snd (handle_message (Bytes d) w)) = ws w"
  by (cases m; cases "socket x"; cases "socket (ws w)")
     (simp_all add: receive_json_def receive_step_def handle_message_def bindW_def)

theorem receive_json_keeps_nothing_witness:
  "receive_json (Bytes [1, 2, 3]) (ws sample_world) = (Inr JNull, ws sample_world)
   \<and> buffer (snd (receive_json (Bytes [1, 2, 3]) (ws sample_world))) = []
   \<and> receive_json (Bytes [4, 0x00, 0x00, 0xff, 0xff]) (ws sample_world)
       = (Inl NameError, ws sample_world)
   \<and> fst (handle_events [Bytes [1, 2, 3], Bytes [4, 0x00, 0x00, 0xff, 0xff]] sample_world)
       = Inl TypeError"
proof -
  have b: "buffer (ws sample_world) = []" by code_simp
  have 1: "receive_json (Bytes [1, 2, 3]) (ws sample_world) = (Inr JNull, ws sample_world)"
    by code_simp
  have 2: "receive_json (Bytes [4, 0x00, 0x00, 0xff, 0xff]) (ws sample_world)
             = (Inl NameError, ws sample_world)"
    by code_simp
  have 3: "fst (handle_events [Bytes [1, 2, 3], Bytes [4, 0x00, 0x00, 0xff, 0xff]] sample_world)
             = Inl TypeError"
    by code_simp
  from receive_json_keeps_nothing [of "Bytes [1, 2, 3]" "ws sample_world"] b
  have "buffer (snd (receive_json (Bytes [1, 2, 3]) (ws sample_world))) = []" by simp
  with 1 2 3 show ?thesis by simp
qed

end
